theory Spec2Isabelle
  imports Complex_Main "HOL-Library.Sublist" "HOL-Library.Char_ord" "HOL-Library.List_Lexorder"
    "HOL-Library.AList"
begin

section \<open>Python text over an 8-bit alphabet\<close>

text \<open>
  The scripts work on Python \<open>str\<close> values read from CSV files. A string is modelled as a
  \<open>string\<close> whose characters are code points 0..255 (what Latin-1 decoding produces, and
  what UTF-8 decoding produces for text of that range); \<open>length\<close> counts code points, as
  Python's \<open>len\<close> does. The character classes below are Python's on that range.
  A data-frame cell read with \<open>dtype=str\<close> is a string or NaN: \<open>None\<close> stands for NaN.
\<close>

type_synonym cell = "string option"

definition cp :: "char \<Rightarrow> nat" where
  "cp c = of_char c"

definition isspace_c :: "char \<Rightarrow> bool" where
  \<comment> \<open>\<open>str.isspace\<close>, the set \<open>strip()\<close>, \<open>split()\<close> and the regex class \<open>\s\<close> use\<close>
  "isspace_c c = ((9 \<le> cp c \<and> cp c \<le> 13) \<or> (28 \<le> cp c \<and> cp c \<le> 32) \<or> cp c = 133 \<or> cp c = 160)"

definition isdecimal_c :: "char \<Rightarrow> bool" where
  \<comment> \<open>the regex class \<open>\d\<close> and the digits \<open>int()\<close> accepts\<close>
  "isdecimal_c c = (48 \<le> cp c \<and> cp c \<le> 57)"

definition isdigit_c :: "char \<Rightarrow> bool" where
  \<comment> \<open>\<open>str.isdigit\<close> also accepts the superscripts 2, 3 and 1 (0xB2, 0xB3, 0xB9)\<close>
  "isdigit_c c = (isdecimal_c c \<or> cp c = 178 \<or> cp c = 179 \<or> cp c = 185)"

definition isalpha_c :: "char \<Rightarrow> bool" where
  "isalpha_c c = ((65 \<le> cp c \<and> cp c \<le> 90) \<or> (97 \<le> cp c \<and> cp c \<le> 122) \<or>
     cp c = 170 \<or> cp c = 181 \<or> cp c = 186 \<or>
     (192 \<le> cp c \<and> cp c \<le> 214) \<or> (216 \<le> cp c \<and> cp c \<le> 246) \<or> 248 \<le> cp c)"

definition upper_c :: "char \<Rightarrow> string" where
  \<comment> \<open>\<open>str.upper\<close> on one character: the sharp s (0xDF) becomes \<open>SS\<close>; the micro sign (0xB5)
      and y with diaeresis (0xFF) have upper-case forms outside the alphabet and stay in place\<close>
  "upper_c c =
     (if 97 \<le> cp c \<and> cp c \<le> 122 then [char_of (cp c - 32)]
      else if cp c = 223 then ''SS''
      else if 224 \<le> cp c \<and> cp c \<le> 254 \<and> cp c \<noteq> 247 then [char_of (cp c - 32)]
      else [c])"

definition lower_c :: "char \<Rightarrow> char" where
  "lower_c c =
     (if 65 \<le> cp c \<and> cp c \<le> 90 then char_of (cp c + 32)
      else if 192 \<le> cp c \<and> cp c \<le> 222 \<and> cp c \<noteq> 215 then char_of (cp c + 32)
      else c)"

definition py_upper :: "string \<Rightarrow> string" where
  "py_upper s = concat (map upper_c s)"

definition py_lower :: "string \<Rightarrow> string" where
  "py_lower s = map lower_c s"

definition py_isdigit :: "string \<Rightarrow> bool" where
  \<comment> \<open>\<open>s.isdigit()\<close>: false on the empty string\<close>
  "py_isdigit s = (s \<noteq> [] \<and> list_all isdigit_c s)"

definition py_strip :: "string \<Rightarrow> string" where
  "py_strip s = rev (dropWhile isspace_c (rev (dropWhile isspace_c s)))"

fun split_ws :: "string \<Rightarrow> string \<Rightarrow> string list" where
  \<comment> \<open>\<open>s.split()\<close>: the second argument is the token being read, reversed\<close>
  "split_ws cur [] = (if cur = [] then [] else [rev cur])"
| "split_ws cur (c # cs) =
     (if isspace_c c then (if cur = [] then split_ws [] cs else rev cur # split_ws [] cs)
      else split_ws (c # cur) cs)"

definition py_split :: "string \<Rightarrow> string list" where
  "py_split s = split_ws [] s"

fun py_in :: "string \<Rightarrow> string \<Rightarrow> bool" where
  \<comment> \<open>\<open>sub in s\<close>\<close>
  "py_in sub [] = (sub = [])"
| "py_in sub (c # cs) = (prefix sub (c # cs) \<or> py_in sub cs)"

fun split_sep :: "string \<Rightarrow> nat \<Rightarrow> string \<Rightarrow> string \<Rightarrow> string list" where
  \<comment> \<open>\<open>s.split(sep)\<close> for a non-empty separator, scanning left to right; \<open>k\<close> counts the
      characters of a separator still to be skipped, \<open>cur\<close> is the current part, reversed\<close>
  "split_sep sep k cur [] = [rev cur]"
| "split_sep sep k cur (c # cs) =
     (if 0 < k then split_sep sep (k - 1) cur cs
      else if prefix sep (c # cs) then rev cur # split_sep sep (length sep - 1) [] cs
      else split_sep sep 0 (c # cur) cs)"

definition py_split_sep :: "string \<Rightarrow> string \<Rightarrow> string list" where
  "py_split_sep sep s = split_sep sep 0 [] s"

definition digit_char :: "nat \<Rightarrow> char" where
  "digit_char d = char_of (48 + d)"

fun str_nat_fuel :: "nat \<Rightarrow> nat \<Rightarrow> string" where
  "str_nat_fuel 0 n = [digit_char (n mod 10)]"
| "str_nat_fuel (Suc f) n =
     (if n < 10 then [digit_char n] else str_nat_fuel f (n div 10) @ [digit_char (n mod 10)])"

definition py_str_int :: "int \<Rightarrow> string" where
  \<comment> \<open>\<open>str(n)\<close> for an int; \<open>nat \<bar>n\<bar>\<close> bounds the number of its digits\<close>
  "py_str_int n =
     (if n < 0 then CHR ''-'' # str_nat_fuel (nat (- n)) (nat (- n)) else str_nat_fuel (nat n) (nat n))"

fun digits_value :: "int \<Rightarrow> string \<Rightarrow> int" where
  "digits_value acc [] = acc"
| "digits_value acc (c # cs) = digits_value (10 * acc + int (cp c - 48)) cs"

section \<open>programas.py and totalxano.py: extraer_programas_y_fechas\<close>

text \<open>
  The two files define \<open>extraer_programas_y_fechas\<close> with the same text. The regular
  expression \<open>\(\s*(\d{4})-(\d{2})-(\d{2})\s*\)\<close> is deterministic (white space, digits
  and the parentheses are disjoint classes), so a match anchored at the head of a string
  is the parse below; it returns the three groups and the number of characters matched.
\<close>

fun match_fecha :: "string \<Rightarrow> ((string \<times> string \<times> string) \<times> nat) option" where
  "match_fecha [] = None"
| "match_fecha (c # r) =
     (if c \<noteq> CHR ''('' then None
      else case dropWhile isspace_c r of
        y1 # y2 # y3 # y4 # h1 # m1 # m2 # h2 # d1 # d2 # r2 \<Rightarrow>
          (if list_all isdecimal_c [y1, y2, y3, y4, m1, m2, d1, d2] \<and> h1 = CHR ''-'' \<and> h2 = CHR ''-''
           then (case dropWhile isspace_c r2 of
                   p # r3 \<Rightarrow> if p = CHR '')''
                             then Some (([y1, y2, y3, y4], [m1, m2], [d1, d2]), length (c # r) - length r3)
                             else None
                 | [] \<Rightarrow> None)
           else None)
      | _ \<Rightarrow> None)"

fun findall_fecha :: "nat \<Rightarrow> string \<Rightarrow> (string \<times> string \<times> string) list" where
  \<comment> \<open>\<open>re.findall\<close>: the matches from left to right, the scan resuming after each match;
      \<open>k\<close> counts the characters of the last match still to be skipped\<close>
  "findall_fecha k [] = []"
| "findall_fecha k (c # cs) =
     (if 0 < k then findall_fecha (k - 1) cs
      else case match_fecha (c # cs) of
             Some (g, n) \<Rightarrow> g # findall_fecha (n - 1) cs
           | None \<Rightarrow> findall_fecha 0 cs)"

record programa_info =
  programa :: string
  anio :: int
  fecha_completa :: string

definition extraer_parte :: "string \<Rightarrow> programa_info list" where
  \<comment> \<open>the body of the loop over \<open>partes\<close>: what one part appends to \<open>programas_info\<close>\<close>
  "extraer_parte parte =
     (let matches_fecha = findall_fecha 0 parte in
      if matches_fecha = [] then []
      else (case last matches_fecha of (a, mes, dia) \<Rightarrow>
        let anio_int = digits_value 0 a in
        if 2021 \<le> anio_int \<and> anio_int \<le> 2025
        then (let m = takeWhile (\<lambda>c. c \<noteq> CHR ''('') parte in
              if m \<noteq> []
              then [\<lparr>programa = py_strip m, anio = anio_int,
                     fecha_completa = py_str_int anio_int @ ''-'' @ mes @ ''-'' @ dia\<rparr>]
              else [])
        else []))"

definition extraer_programas_y_fechas :: "cell \<Rightarrow> programa_info list" where
  "extraer_programas_y_fechas programa_str =
     (case programa_str of
        None \<Rightarrow> []
      | Some s \<Rightarrow> if s = [] then [] else concat (map extraer_parte (py_split_sep '' - '' s)))"

fun fechas_en :: "string \<Rightarrow> (string \<times> string \<times> string) list" where
  \<comment> \<open>the claim's reading: the parenthesized dates occurring in a segment, by position\<close>
  "fechas_en [] = []"
| "fechas_en (c # cs) =
     (case match_fecha (c # cs) of Some (g, n) \<Rightarrow> g # fechas_en cs | None \<Rightarrow> fechas_en cs)"

definition anio_de :: "string \<times> string \<times> string \<Rightarrow> int" where
  "anio_de f = digits_value 0 (fst f)"

section \<open>egresados\_posgrados.py and limpiar\_csv\_posgrados.py: extraer\_codigo\_programa\<close>

definition extraer_codigo_programa :: "cell \<Rightarrow> string option" where
  \<comment> \<open>egresados\_posgrados.py\<close>
  "extraer_codigo_programa nombre_programa =
     (case nombre_programa of
        None \<Rightarrow> None
      | Some s \<Rightarrow>
          (case py_split (py_strip s) of
             [] \<Rightarrow> None
           | p # _ \<Rightarrow> if py_isdigit p then Some p else None))"

definition extraer_codigo_programa_limpiar :: "cell \<Rightarrow> string option" where
  \<comment> \<open>limpiar\_csv\_posgrados.py: the loop over \<open>palabras\<close> returns at the first hit\<close>
  "extraer_codigo_programa_limpiar texto =
     (case texto of
        None \<Rightarrow> None
      | Some s \<Rightarrow> List.find (\<lambda>palabra. py_isdigit palabra \<and> length palabra = 5) (py_split (py_strip s)))"

section \<open>More of Python's text operations\<close>




fun int_body_ok :: "bool \<Rightarrow> string \<Rightarrow> bool" where
  \<comment> \<open>decimal digits, with single underscores between two digits; the flag says that the
      previous character was a digit\<close>
  "int_body_ok prev [] = prev"
| "int_body_ok prev (c # cs) =
     (if isdecimal_c c then int_body_ok True cs
      else (c = CHR ''_'' \<and> prev \<and> int_body_ok False cs))"

definition int_body :: "string \<Rightarrow> int option" where
  "int_body b =
     (if int_body_ok False b then Some (digits_value 0 (filter (\<lambda>c. c \<noteq> CHR ''_'') b)) else None)"

definition isspace_int_c :: "char \<Rightarrow> bool" where
  \<comment> \<open>the white space that \<open>int()\<close> skips around a number: the ASCII white space, and
      0x85 and 0xA0, which it first turns into blanks; not the separators 0x1C to 0x1F\<close>
  "isspace_int_c c = ((9 \<le> cp c \<and> cp c \<le> 13) \<or> cp c = 32 \<or> cp c = 133 \<or> cp c = 160)"

definition py_int_str :: "string \<Rightarrow> int option" where
  \<comment> \<open>\<open>int(s)\<close> for a string: \<open>None\<close> where Python raises ValueError\<close>
  "py_int_str s =
     (case rev (dropWhile isspace_int_c (rev (dropWhile isspace_int_c s))) of
        [] \<Rightarrow> None
      | c # cs \<Rightarrow>
          if c = CHR ''-'' then map_option uminus (int_body cs)
          else if c = CHR ''+'' then int_body cs
          else int_body (c # cs))"


section \<open>egresados\_posgrados\_limpios.py: the detailed alumni database\<close>

text \<open>
  \<open>egresados_detalle\<close> is a dictionary from a c\'edula to the list of its
  \<open>(titulo, a\~no_grado)\<close> pairs; the year is \<open>None\<close> when the loader found no date column
  or could not take a year from the date.
\<close>

type_synonym titulos = "(string \<times> int option) list"
type_synonym egresados_detalle = "string \<rightharpoonup> titulos"

definition extraer_anio_grado :: "string \<Rightarrow> int option" where
  \<comment> \<open>the loader's year of a stripped date string: \<open>DD/MM/YYYY\<close> or \<open>YYYY-MM-DD\<close>; a failing
      \<open>int()\<close> is caught and leaves \<open>None\<close>\<close>
  "extraer_anio_grado fecha_str =
     (if py_in ''/'' fecha_str
      then (let partes = py_split_sep ''/'' fecha_str
            in if length partes = 3 then py_int_str (last partes) else None)
      else if py_in ''-'' fecha_str
      then (let partes = py_split_sep ''-'' fecha_str
            in if length partes = 3 then py_int_str (hd partes) else None)
      else None)"

definition py_str_cell :: "cell \<Rightarrow> string" where
  \<comment> \<open>\<open>str(v)\<close> of a cell: NaN prints as \<open>nan\<close>\<close>
  "py_str_cell v = (case v of None \<Rightarrow> ''nan'' | Some s \<Rightarrow> s)"

record fila_bdd =
  celda_cedula :: cell
  celda_titulo :: cell
  celda_fecha :: "cell option"   \<comment> \<open>\<open>None\<close>: the data frame has no date column\<close>

definition agregar_titulo :: "egresados_detalle \<Rightarrow> fila_bdd \<Rightarrow> egresados_detalle" where
  \<comment> \<open>the body of the loader's loop over the rows\<close>
  "agregar_titulo egresados_detalle row =
     (let cedula = py_strip (py_str_cell (celda_cedula row));
          titulo = py_upper (py_strip (py_str_cell (celda_titulo row)))
      in if cedula = [] \<or> py_lower cedula = ''nan'' then egresados_detalle
         else if titulo = [] \<or> py_lower titulo = ''nan'' \<or> titulo = ''NAN'' then egresados_detalle
         else (let anio_grado = (case celda_fecha row of
                                   None \<Rightarrow> None
                                 | Some f \<Rightarrow> extraer_anio_grado (py_strip (py_str_cell f)));
                   previos = (case egresados_detalle cedula of None \<Rightarrow> [] | Some ts \<Rightarrow> ts);
                   registro = (titulo, anio_grado)
               in if registro \<in> set previos then egresados_detalle(cedula \<mapsto> previos)
                  else egresados_detalle(cedula \<mapsto> previos @ [registro])))"

definition cargar_filas_detalladas :: "fila_bdd list \<Rightarrow> egresados_detalle" where
  "cargar_filas_detalladas filas = foldl agregar_titulo Map.empty filas"

definition MAESTRIA_acento :: string where
  \<comment> \<open>the literal \<open>MAESTRIA\<close> written with an acute accent on the I (0xCD)\<close>
  "MAESTRIA_acento = ''MAESTR'' @ [char_of (205::nat)] @ ''A''"







section \<open>Exceptions, encodings and data frames\<close>

datatype py_error =
    IndexError | KeyError | TypeError | UnboundLocalError | UnicodeDecodeError
  | EmptyDataError | ParserError | FileNotFoundError | OtherException string

datatype encoding = Utf8 | Latin1 | Iso8859_1 | Cp1252

text \<open>
  A data frame read with \<open>header=None\<close> is the list of its rows, each the list of its
  cells. One read with a header row has the column names as well.
\<close>

type_synonym fila = "cell list"

record dataframe =
  columnas :: "string list"
  filas :: "fila list"

definition py_rstrip :: "string \<Rightarrow> string" where
  "py_rstrip s = rev (dropWhile isspace_c (rev s))"

fun py_join :: "string \<Rightarrow> string list \<Rightarrow> string" where
  "py_join sep [] = []"
| "py_join sep [x] = x"
| "py_join sep (x # y # ys) = x @ sep @ py_join sep (y # ys)"

fun py_find_desde :: "string \<Rightarrow> nat \<Rightarrow> string \<Rightarrow> int" where
  "py_find_desde sub i [] = (if sub = [] then int i else - 1)"
| "py_find_desde sub i (c # cs) = (if prefix sub (c # cs) then int i else py_find_desde sub (Suc i) cs)"

definition py_find :: "string \<Rightarrow> string \<Rightarrow> int" where
  \<comment> \<open>\<open>s.find(sub)\<close>: the index of the first occurrence, or \<open>-1\<close>\<close>
  "py_find sub s = py_find_desde sub 0 s"

definition notna :: "fila \<Rightarrow> string list" where
  \<comment> \<open>the cells of a row that are not NaN\<close>
  "notna row = concat (map (\<lambda>v. case v of None \<Rightarrow> [] | Some s \<Rightarrow> [s]) row)"

definition truthy :: "string option \<Rightarrow> bool" where
  \<comment> \<open>Python's truth value of a variable that holds \<open>None\<close> or a string\<close>
  "truthy v = (case v of None \<Rightarrow> False | Some s \<Rightarrow> s \<noteq> [])"

definition Si :: string where
  \<comment> \<open>the literal \<open>Si\<close> with an acute accent on the i (0xED)\<close>
  "Si = [CHR ''S'', char_of (237::nat)]"

definition RESOLUCION_acento :: string where
  \<comment> \<open>\<open>RESOLUCION\<close> with an acute accent on the O (0xD3)\<close>
  "RESOLUCION_acento = ''RESOLUCI'' @ [char_of (211::nat)] @ ''N''"

definition Resolucion_acento :: string where
  \<comment> \<open>\<open>Resolucion\<close> with an acute accent on the last o (0xF3)\<close>
  "Resolucion_acento = ''Resoluci'' @ [char_of (243::nat)] @ ''n''"

section \<open>The fallback chain of the loaders\<close>

text \<open>
  Reading a file is an operation of the environment: \<open>leer enc\<close> stands for
  \<open>pd.read_csv(path, sep=';', encoding=enc, ...)\<close> on the file at hand and is the data
  frame or the exception raised. The loop \<open>for encoding in [...]: try: df = read; break;
  except: continue\<close> catches every exception. The model returns the encodings tried, in
  order, with the data frame, \<open>None\<close> when every attempt raised.
\<close>

fun intentar_encodings :: "(encoding \<Rightarrow> py_error + 'df) \<Rightarrow> encoding list \<Rightarrow> encoding list \<times> 'df option" where
  "intentar_encodings leer [] = ([], None)"
| "intentar_encodings leer (enc # rest) =
     (case leer enc of
        Inr df \<Rightarrow> ([enc], Some df)
      | Inl e \<Rightarrow> (case intentar_encodings leer rest of (tried, r) \<Rightarrow> (enc # tried, r)))"

definition cadena_encodings :: "encoding list" where
  "cadena_encodings = [Utf8, Latin1, Iso8859_1, Cp1252]"

section \<open>egresados\_posgrados.py\<close>

definition es_columna_identificacion :: "string \<Rightarrow> bool" where
  "es_columna_identificacion col =
     (let col_upper = py_strip (py_upper col)
      in py_in ''IDENTIFICACI'' col_upper \<or> py_in ''CEDULA'' col_upper \<or> py_in ''DOCUMENTO'' col_upper)"

fun indice_columna :: "(string \<Rightarrow> bool) \<Rightarrow> string list \<Rightarrow> nat \<Rightarrow> nat option" where
  \<comment> \<open>the position of the first column name with the property\<close>
  "indice_columna P [] i = None"
| "indice_columna P (col # cols) i = (if P col then Some i else indice_columna P cols (Suc i))"

definition celda :: "fila \<Rightarrow> nat \<Rightarrow> cell" where
  \<comment> \<open>the cell of a row in a column; pandas pads a short row with NaN\<close>
  "celda row i = (if i < length row then row ! i else None)"

definition cedulas_de :: "dataframe \<Rightarrow> string set" where
  \<comment> \<open>the part of \<open>cargar_base_datos_egresados\<close> after the file is read\<close>
  "cedulas_de df =
     (case indice_columna es_columna_identificacion (columnas df) 0 of
        None \<Rightarrow> {}
      | Some i \<Rightarrow>
          (if columnas df ! i = [] then {}
           else set (filter (\<lambda>cedula_limpia. cedula_limpia \<noteq> [] \<and> py_lower cedula_limpia \<noteq> ''nan'')
                      (map py_strip (remdups (notna (map (\<lambda>row. celda row i) (filas df))))))))"

definition cargar_base_datos_egresados :: "(encoding \<Rightarrow> py_error + dataframe) \<Rightarrow> py_error + string set" where
  \<comment> \<open>when every encoding fails, \<open>df\<close> was never assigned and \<open>df.columns\<close> raises\<close>
  "cargar_base_datos_egresados leer =
     (case snd (intentar_encodings leer cadena_encodings) of
        None \<Rightarrow> Inl UnboundLocalError
      | Some df \<Rightarrow> Inr (cedulas_de df))"

definition extraer_nombre_programa_limpio :: "cell \<Rightarrow> string option" where
  "extraer_nombre_programa_limpio nombre_programa =
     (case nombre_programa of
        None \<Rightarrow> None
      | Some s \<Rightarrow>
          (let nombre_str = py_strip s
           in if py_in ''RESOLUCION'' (py_upper nombre_str) \<or> py_in RESOLUCION_acento (py_upper nombre_str)
              then (let idx_res =
                          (case List.find (\<lambda>variante. py_in variante nombre_str)
                                  [''RESOLUCION'', RESOLUCION_acento, ''Resolucion'', Resolucion_acento] of
                             None \<Rightarrow> - 1
                           | Some variante \<Rightarrow> py_find variante nombre_str)
                    in if 0 < idx_res
                       then Some (py_rstrip (py_strip (take (nat idx_res) nombre_str)))
                       else Some nombre_str)
              else Some nombre_str))"

record estudiante =
  Anio :: int
  Programa_Codigo :: "string option"
  Programa_Nombre :: "string option"
  Nombre :: string
  Identificacion :: string
  Es_Egresado_ULibre :: string

record estado =
  programa_actual :: "string option"
  resultados :: "estudiante list"
  estudiantes_vistos :: "string set"

record hallazgo =
  nombre_encontrado :: "string option"
  cedula_encontrada :: "string option"
  codigo_encontrado :: "string option"

definition es_linea_programa :: "string \<Rightarrow> bool" where
  \<comment> \<open>\<open>col and len(col) >= 5 and col[:5].isdigit()\<close>\<close>
  "es_linea_programa col = (col \<noteq> [] \<and> 5 \<le> length col \<and> py_isdigit (take 5 col))"

definition es_programa_en_fila :: "string \<Rightarrow> bool" where
  "es_programa_en_fila val_str =
     (20 < length val_str \<and> py_isdigit (take 5 val_str) \<and>
      list_ex (\<lambda>palabra. py_in palabra (py_upper val_str)) [''ESPECIALIZACION'', ''MAESTRIA'', ''DOCTORADO''] \<and>
      \<not> py_in ''RESOLUCION'' (py_upper val_str) \<and> \<not> py_in ''PENSUM'' (py_upper val_str))"

fun buscar_programa :: "fila \<Rightarrow> string option \<Rightarrow> string option" where
  \<comment> \<open>the loop that looks for a program in the whole row; it stops at the first hit\<close>
  "buscar_programa [] actual = actual"
| "buscar_programa (val # rest) actual =
     (case val of
        None \<Rightarrow> buscar_programa rest actual
      | Some v \<Rightarrow> if es_programa_en_fila (py_strip v) then Some (py_strip v)
                  else buscar_programa rest actual)"

definition parece_nombre :: "string \<Rightarrow> bool" where
  "parece_nombre valor_str =
     (5 < length valor_str \<and> list_ex isalpha_c valor_str \<and> py_in '' '' valor_str \<and>
      \<not> py_in ''UNIVERSIDAD'' (py_upper valor_str) \<and> \<not> py_in ''Nombre'' valor_str \<and>
      \<not> py_in ''Nivel'' valor_str \<and> \<not> py_in ''Pensum'' valor_str \<and>
      \<not> py_in ''Programa'' valor_str \<and> \<not> py_in ''Periodo'' valor_str \<and>
      \<not> py_in ''Facultad'' valor_str)"

definition parece_cedula :: "string \<Rightarrow> bool" where
  "parece_cedula valor_str =
     (py_isdigit valor_str \<and> 6 \<le> length valor_str \<and> length valor_str \<le> 12 \<and>
      valor_str \<noteq> ''20211'' \<and> valor_str \<noteq> ''20221'' \<and> valor_str \<noteq> ''20231'' \<and>
      valor_str \<noteq> ''20241'' \<and> valor_str \<noteq> ''20251'')"

fun escanear_fila :: "fila \<Rightarrow> hallazgo \<Rightarrow> hallazgo" where
  \<comment> \<open>the loop over the cells of a row that looks for the name, the c\'edula and the code\<close>
  "escanear_fila [] h = h"
| "escanear_fila (valor # rest) h =
     (case valor of
        None \<Rightarrow> escanear_fila rest h
      | Some v \<Rightarrow>
          (let valor_str = py_strip v;
               h1 = (if parece_nombre valor_str then h\<lparr>nombre_encontrado := Some valor_str\<rparr> else h);
               h2 = (if parece_cedula valor_str
                     then (if cedula_encontrada h1 = None then h1\<lparr>cedula_encontrada := Some valor_str\<rparr>
                           else if codigo_encontrado h1 = None then h1\<lparr>codigo_encontrado := Some valor_str\<rparr>
                           else h1)
                     else h1)
           in escanear_fila rest h2))"

definition sin_hallazgo :: hallazgo where
  "sin_hallazgo = \<lparr>nombre_encontrado = None, cedula_encontrada = None, codigo_encontrado = None\<rparr>"

definition clave_unica :: "string \<Rightarrow> string option \<Rightarrow> string" where
  \<comment> \<open>the f-string \<open>{cedula_encontrada}_{programa_actual}\<close>; \<open>None\<close> prints as \<open>None\<close>\<close>
  "clave_unica cedula prog = cedula @ ''_'' @ (case prog of None \<Rightarrow> ''None'' | Some p \<Rightarrow> p)"

definition nuevo_estudiante :: "string set \<Rightarrow> int \<Rightarrow> string option \<Rightarrow> string \<Rightarrow> string \<Rightarrow> estudiante" where
  "nuevo_estudiante cedulas_egresados a prog nombre cedula =
     \<lparr>Anio = a,
      Programa_Codigo = (if truthy prog then extraer_codigo_programa prog else Some ''Sin_Codigo''),
      Programa_Nombre = (if truthy prog then extraer_nombre_programa_limpio prog else Some ''Sin_Programa''),
      Nombre = nombre,
      Identificacion = cedula,
      Es_Egresado_ULibre = (if cedula \<in> cedulas_egresados then Si else ''No'')\<rparr>"

definition registrar_estudiante :: "string set \<Rightarrow> int \<Rightarrow> estado \<Rightarrow> hallazgo \<Rightarrow> estado" where
  \<comment> \<open>the end of the loop body: a row with a name and a c\'edula is a student, recorded
      unless its key was seen before\<close>
  "registrar_estudiante cedulas_egresados a st h =
     (if truthy (nombre_encontrado h) \<and> truthy (cedula_encontrada h)
      then (let clave = clave_unica (the (cedula_encontrada h)) (programa_actual st)
            in if clave \<notin> estudiantes_vistos st
               then st\<lparr>estudiantes_vistos := insert clave (estudiantes_vistos st),
                       resultados := resultados st @
                         [nuevo_estudiante cedulas_egresados a (programa_actual st)
                            (the (nombre_encontrado h)) (the (cedula_encontrada h))]\<rparr>
               else st)
      else st)"

definition procesar_fila :: "string set \<Rightarrow> int \<Rightarrow> estado \<Rightarrow> fila \<Rightarrow> py_error + estado" where
  \<comment> \<open>the body of the loop over \<open>df.iterrows()\<close>; \<open>row.iloc[0]\<close> raises on a row without cells\<close>
  "procesar_fila cedulas_egresados a st row =
     (case row of
        [] \<Rightarrow> Inl IndexError
      | c0 # rest \<Rightarrow>
          (let fila_str = py_strip (py_join '' '' (notna row));
               primera_col = (case c0 of None \<Rightarrow> [] | Some s \<Rightarrow> py_strip s);
               segunda_col = (case rest of Some s # _ \<Rightarrow> py_strip s | _ \<Rightarrow> [])
           in if es_linea_programa primera_col then Inr (st\<lparr>programa_actual := Some primera_col\<rparr>)
              else if es_linea_programa segunda_col then Inr (st\<lparr>programa_actual := Some segunda_col\<rparr>)
              else (let st1 = st\<lparr>programa_actual := buscar_programa row (programa_actual st)\<rparr>
                    in if py_in ''Nombre'' fila_str \<and> py_in ''Identificaci'' fila_str then Inr st1
                       else if primera_col \<noteq> [] \<and>
                               (py_in ''Pensum'' primera_col \<or> py_in ''RESOLUCION'' (py_upper primera_col))
                       then Inr st1
                       else Inr (registrar_estudiante cedulas_egresados a st1
                                   (escanear_fila row sin_hallazgo)))))"

fun procesar_filas :: "string set \<Rightarrow> int \<Rightarrow> estado \<Rightarrow> fila list \<Rightarrow> py_error + estado" where
  "procesar_filas cedulas_egresados a st [] = Inr st"
| "procesar_filas cedulas_egresados a st (row # rows) =
     (case procesar_fila cedulas_egresados a st row of
        Inl e \<Rightarrow> Inl e
      | Inr st' \<Rightarrow> procesar_filas cedulas_egresados a st' rows)"

definition estado_inicial :: estado where
  "estado_inicial = \<lparr>programa_actual = None, resultados = [], estudiantes_vistos = {}\<rparr>"

definition procesar_archivo_posgrados ::
    "(encoding \<Rightarrow> py_error + fila list) \<Rightarrow> string set \<Rightarrow> int \<Rightarrow> py_error + estudiante list" where
  \<comment> \<open>when no encoding succeeds the function prints a message and returns the empty list\<close>
  "procesar_archivo_posgrados leer cedulas_egresados a =
     (case snd (intentar_encodings leer cadena_encodings) of
        None \<Rightarrow> Inr []
      | Some df \<Rightarrow> map_sum id resultados (procesar_filas cedulas_egresados a estado_inicial df))"

definition valores :: "fila \<Rightarrow> string list" where
  \<comment> \<open>the claim's reading: the cell values of a row, in column order\<close>
  "valores row = map py_strip (notna row)"

definition solo_digitos_6_12 :: "string \<Rightarrow> bool" where
  \<comment> \<open>the claim's reading: solely digits, of length 6 to 12\<close>
  "solo_digitos_6_12 v = (py_isdigit v \<and> 6 \<le> length v \<and> length v \<le> 12)"

definition periodos :: "string list" where
  "periodos = [''20211'', ''20221'', ''20231'', ''20241'', ''20251'']"

definition primero :: "'a list \<Rightarrow> 'a option" where
  "primero xs = (case xs of [] \<Rightarrow> None | x # _ \<Rightarrow> Some x)"

definition segundo :: "'a list \<Rightarrow> 'a option" where
  "segundo xs = (case xs of _ # y # _ \<Rightarrow> Some y | _ \<Rightarrow> None)"

section \<open>limpiar\_csv\_posgrados.py\<close>

definition split_max1 :: "string \<Rightarrow> string list" where
  \<comment> \<open>\<open>s.split(maxsplit=1)\<close>: the first token and, if anything follows the white space
      after it, the rest of the string\<close>
  "split_max1 s =
     (let t = dropWhile isspace_c s
      in if t = [] then []
         else (let r = dropWhile isspace_c (dropWhile (\<lambda>c. \<not> isspace_c c) t)
               in if r = [] then [takeWhile (\<lambda>c. \<not> isspace_c c) t]
                  else [takeWhile (\<lambda>c. \<not> isspace_c c) t, r]))"

fun quitar_resolucion :: "string list \<Rightarrow> string \<Rightarrow> string" where
  \<comment> \<open>the loop over the spellings of RESOLUCION; it stops at the first one found at a
      positive index\<close>
  "quitar_resolucion [] texto_str = texto_str"
| "quitar_resolucion (variante # rest) texto_str =
     (if py_in variante (py_upper texto_str)
      then (let idx = py_find (py_upper variante) (py_upper texto_str)
            in if 0 < idx then py_strip (take (nat idx) texto_str)
               else quitar_resolucion rest texto_str)
      else quitar_resolucion rest texto_str)"

definition limpiar_nombre_programa :: "cell \<Rightarrow> string" where
  "limpiar_nombre_programa texto =
     (case texto of
        None \<Rightarrow> []
      | Some s \<Rightarrow>
          (let texto_str = py_strip s;
               palabras = split_max1 texto_str;
               texto_str1 = (case palabras of
                               p0 # p1 # _ \<Rightarrow> if py_isdigit p0 \<and> length p0 = 5 then p1 else texto_str
                             | _ \<Rightarrow> texto_str)
           in py_strip (quitar_resolucion
                          [''RESOLUCION'', RESOLUCION_acento, ''Resolucion'', Resolucion_acento]
                          texto_str1)))"

record registro_limpio =
  Anio_l :: int
  Facultad :: string
  Codigo_Programa :: string
  Nombre_Programa :: string
  Nombre_Estudiante :: string
  Cedula :: string
  Codigo_Estudiante :: string
  Grupo :: string

record estado_limpiar =
  registros :: "registro_limpio list"
  facultad_actual :: string
  programa_codigo :: "string option"
  programa_nombre :: string

record hallazgo_limpiar =
  cedula_l :: "string option"
  codigo_l :: "string option"
  grupo_l :: "string option"

definition fillna :: "cell \<Rightarrow> string" where
  \<comment> \<open>\<open>fillna('')\<close> on one cell\<close>
  "fillna v = (case v of None \<Rightarrow> [] | Some s \<Rightarrow> s)"

definition o_vacio :: "string option \<Rightarrow> string" where
  \<comment> \<open>\<open>v or ''\<close> for a variable that holds \<open>None\<close> or a string\<close>
  "o_vacio v = (case v of None \<Rightarrow> [] | Some s \<Rightarrow> s)"

fun escanear_fila_limpiar :: "string list \<Rightarrow> hallazgo_limpiar \<Rightarrow> hallazgo_limpiar" where
  "escanear_fila_limpiar [] h = h"
| "escanear_fila_limpiar (valor # rest) h =
     (let valor_str = py_strip valor;
          h1 = (if py_isdigit valor_str \<and> 6 \<le> length valor_str \<and> length valor_str \<le> 12
                then (if cedula_l h = None then h\<lparr>cedula_l := Some valor_str\<rparr>
                      else if codigo_l h = None then h\<lparr>codigo_l := Some valor_str\<rparr>
                      else h)
                else h);
          h2 = (if py_isdigit valor_str \<and> 1 \<le> length valor_str \<and> length valor_str \<le> 3
                then h1\<lparr>grupo_l := Some valor_str\<rparr> else h1)
      in escanear_fila_limpiar rest h2)"

definition sin_hallazgo_limpiar :: hallazgo_limpiar where
  "sin_hallazgo_limpiar = \<lparr>cedula_l = None, codigo_l = None, grupo_l = None\<rparr>"

definition registrar_limpio :: "int \<Rightarrow> estado_limpiar \<Rightarrow> string \<Rightarrow> hallazgo_limpiar \<Rightarrow> estado_limpiar" where
  \<comment> \<open>the end of the loop body: the c\'edula is validated and the clean record appended\<close>
  "registrar_limpio a st nombre_estudiante h =
     (if \<not> truthy (cedula_l h) \<or> length (the (cedula_l h)) < 6 then st
      else st\<lparr>registros := registros st @
              [\<lparr>Anio_l = a, Facultad = facultad_actual st,
                Codigo_Programa = o_vacio (programa_codigo st),
                Nombre_Programa = programa_nombre st,
                Nombre_Estudiante = nombre_estudiante,
                Cedula = the (cedula_l h),
                Codigo_Estudiante = o_vacio (codigo_l h),
                Grupo = o_vacio (grupo_l h)\<rparr>]\<rparr>)"

definition procesar_fila_limpiar :: "int \<Rightarrow> estado_limpiar \<Rightarrow> fila \<Rightarrow> py_error + estado_limpiar" where
  \<comment> \<open>the body of the loop over the rows; \<open>row[0]\<close> raises on a row without cells\<close>
  "procesar_fila_limpiar a st row =
     (case map fillna row of
        [] \<Rightarrow> Inl KeyError
      | v0 # rest \<Rightarrow>
          (let primera_col = py_strip v0;
               segunda_col = (case rest of [] \<Rightarrow> [] | v1 # _ \<Rightarrow> py_strip v1)
           in if primera_col = ''Facultad'' then Inr (st\<lparr>facultad_actual := segunda_col\<rparr>)
              else if primera_col = ''Programa''
              then Inr (st\<lparr>programa_codigo := extraer_codigo_programa_limpiar (Some segunda_col),
                            programa_nombre := limpiar_nombre_programa (Some segunda_col)\<rparr>)
              else if primera_col \<in> set [''Pensum'', ''Nivel'', ''Nombre'', []] then Inr st
              else if py_in ''RESOLUCION'' (py_upper primera_col) \<or>
                      py_in RESOLUCION_acento (py_upper primera_col) then Inr st
              else if length primera_col \<le> 5 then Inr st
              else if \<not> list_ex isalpha_c primera_col then Inr st
              else if py_upper primera_col \<in> set [''NIVEL'', ''NOMBRE'', ''FACULTAD'', ''PROGRAMA'', ''PENSUM'']
              then Inr st
              else Inr (registrar_limpio a st primera_col
                          (escanear_fila_limpiar (v0 # rest) sin_hallazgo_limpiar))))"

fun procesar_filas_limpiar :: "int \<Rightarrow> estado_limpiar \<Rightarrow> fila list \<Rightarrow> py_error + estado_limpiar" where
  "procesar_filas_limpiar a st [] = Inr st"
| "procesar_filas_limpiar a st (row # rows) =
     (case procesar_fila_limpiar a st row of
        Inl e \<Rightarrow> Inl e
      | Inr st' \<Rightarrow> procesar_filas_limpiar a st' rows)"

definition estado_inicial_limpiar :: estado_limpiar where
  "estado_inicial_limpiar =
     \<lparr>registros = [], facultad_actual = [], programa_codigo = Some [], programa_nombre = []\<rparr>"

definition leer_utf8_o_latin1 :: "(encoding \<Rightarrow> py_error + 'df) \<Rightarrow> encoding list \<times> (py_error + 'df)" where
  \<comment> \<open>\<open>try: read as utf-8; except: read as latin-1\<close>, with a bare \<open>except\<close>; the encodings
      tried and the outcome (an exception of the second read propagates)\<close>
  "leer_utf8_o_latin1 leer =
     (case leer Utf8 of
        Inr df \<Rightarrow> ([Utf8], Inr df)
      | Inl e \<Rightarrow> ([Utf8, Latin1], leer Latin1))"

definition procesar_archivo_posgrados_limpiar ::
    "(encoding \<Rightarrow> py_error + fila list) \<Rightarrow> int \<Rightarrow> py_error + registro_limpio list" where
  "procesar_archivo_posgrados_limpiar leer a =
     (case snd (leer_utf8_o_latin1 leer) of
        Inl e \<Rightarrow> Inl e
      | Inr df \<Rightarrow> map_sum id registros (procesar_filas_limpiar a estado_inicial_limpiar df))"

section \<open>Survey files: app.py and totalxano.py\<close>

text \<open>
  The two scripts read each survey file twice: its lines, to find the header row, and
  then the table from that row on. Both reads are operations of the environment, given
  with the file: \<open>readlines enc\<close> stands for \<open>open(archivo, 'r', encoding=enc)\<close> followed
  by \<open>f.readlines()\<close>, and \<open>read_csv enc n\<close> for \<open>pd.read_csv(archivo, encoding=enc,
  sep=';', skiprows=n, on_bad_lines='skip')\<close>; each is the value read or the exception
  raised. The exceptions of \<open>py_error\<close> are all subclasses of \<open>Exception\<close>. A cell of these
  data frames is modelled by its text, NaN apart.
\<close>

record archivo =
  nombre_archivo :: string
  existe :: bool
  readlines :: "encoding \<Rightarrow> py_error + string list"
  read_csv :: "encoding \<Rightarrow> nat \<Rightarrow> py_error + dataframe"

definition leer_con_respaldo :: "(encoding \<Rightarrow> py_error + 'a) \<Rightarrow> encoding list \<times> (py_error + 'a)" where
  \<comment> \<open>\<open>try: read as utf-8; except UnicodeDecodeError: read as latin-1\<close>: the encodings
      tried and the outcome; any other exception of the first read propagates\<close>
  "leer_con_respaldo leer =
     (case leer Utf8 of
        Inr x \<Rightarrow> ([Utf8], Inr x)
      | Inl e \<Rightarrow> if e = UnicodeDecodeError then ([Utf8, Latin1], leer Latin1) else ([Utf8], Inl e))"

fun buscar_encabezado :: "string list \<Rightarrow> nat \<Rightarrow> nat" where
  \<comment> \<open>the index of the first line with DOCUMENTO and NOMBRES, 0 when there is none\<close>
  "buscar_encabezado [] i = 0"
| "buscar_encabezado (line # lines) i =
     (if py_in ''DOCUMENTO'' line \<and> py_in ''NOMBRES'' line then i
      else buscar_encabezado lines (Suc i))"

definition leer_tabla :: "archivo \<Rightarrow> py_error + dataframe" where
  \<comment> \<open>the two reads at the head of the \<open>try\<close> block\<close>
  "leer_tabla a =
     (case snd (leer_con_respaldo (readlines a)) of
        Inl e \<Rightarrow> Inl e
      | Inr lines \<Rightarrow>
          snd (leer_con_respaldo (\<lambda>enc. read_csv a enc (buscar_encabezado lines 0))))"

datatype mensaje =
    ArchivoNoEncontrado string
  | ColumnaNoEncontrada string
  | ErrorAlProcesar string py_error

definition row_get :: "dataframe \<Rightarrow> fila \<Rightarrow> string \<Rightarrow> cell \<Rightarrow> cell" where
  \<comment> \<open>\<open>row.get(col, default)\<close> for a column name\<close>
  "row_get df row col val_default =
     (case indice_columna (\<lambda>c. c = col) (columnas df) 0 of
        None \<Rightarrow> val_default
      | Some i \<Rightarrow> celda row i)"

subsection \<open>totalxano.py\<close>

datatype fecha = NaT | Timestamp bool int

text \<open>
  \<open>fecha_encuesta\<close> is \<open>None\<close>, or what \<open>pd.to_datetime(s, errors='coerce')\<close> returned: NaT
  for a text that is no date, or a time stamp, here an instant with a flag that says
  whether the time stamp has a time zone. Both are true in a condition. A comparison with
  NaT is false; the comparison of a time stamp that has a time zone with one that has none
  raises TypeError. The parser is a parameter of the model: \<open>to_datetime s\<close> is \<open>None\<close>
  when the call raises.
\<close>

definition fecha_mayor :: "fecha \<Rightarrow> fecha \<Rightarrow> py_error + bool" where
  \<comment> \<open>\<open>a > b\<close>\<close>
  "fecha_mayor a b =
     (case (a, b) of
        (Timestamp za x, Timestamp zb y) \<Rightarrow> if za = zb then Inr (y < x) else Inl TypeError
      | _ \<Rightarrow> Inr False)"

record egresado =
  Archivo_t :: string
  Documento_t :: string
  Nombre_t :: string
  Programa_t :: string
  Tipo_Programa_t :: string
  Anio_Grado_t :: int
  Fecha_Grado_t :: string
  Informacion_Ocupacional_t :: string
  Cargo_t :: string

text \<open>
  A value of \<open>registros_unicos\<close> is the record with its \<open>Fecha_Encuesta\<close>; the dictionary
  keeps the order of insertion, and an assignment to a key already there keeps its place.
\<close>

type_synonym registros_unicos = "(string \<times> egresado \<times> fecha option) list"

record columnas_t =
  columna_programa :: "nat option"
  columna_nombres :: "nat option"
  columna_apellidos :: "nat option"
  columna_documento :: "nat option"
  columna_info_ocupacional :: "nat option"
  columna_cargo :: "nat option"
  columna_fecha_encuesta :: "nat option"

definition sin_columnas :: columnas_t where
  "sin_columnas = \<lparr>columna_programa = None, columna_nombres = None, columna_apellidos = None,
     columna_documento = None, columna_info_ocupacional = None, columna_cargo = None,
     columna_fecha_encuesta = None\<rparr>"

fun buscar_columnas :: "string list \<Rightarrow> nat \<Rightarrow> columnas_t \<Rightarrow> columnas_t" where
  \<comment> \<open>the loop over \<open>df.columns\<close>; a column is known by its position, and a later match
      replaces an earlier one\<close>
  "buscar_columnas [] i cs = cs"
| "buscar_columnas (col # cols) i cs =
     (let col_upper = py_upper col
      in buscar_columnas cols (Suc i)
           (if col_upper = ''PROGRAMA(S)'' \<or>
               (prefix ''PROGRAMA'' col_upper \<and> py_in ''('' col_upper \<and> py_in ''S)'' col_upper)
            then cs\<lparr>columna_programa := Some i\<rparr>
            else if py_in ''NOMBRES'' col_upper \<and> \<not> py_in ''APELLIDOS'' col_upper
            then cs\<lparr>columna_nombres := Some i\<rparr>
            else if py_in ''APELLIDOS'' col_upper then cs\<lparr>columna_apellidos := Some i\<rparr>
            else if col_upper = ''DOCUMENTO'' then cs\<lparr>columna_documento := Some i\<rparr>
            else if (py_in ''INFORMACI'' col_upper \<and> py_in ''OCUPACIONAL'' col_upper) \<and>
                    \<not> py_in ''('' col_upper
            then cs\<lparr>columna_info_ocupacional := Some i\<rparr>
            else if py_in ''CARGO'' col_upper \<and> py_in ''DESEMPE'' col_upper
            then cs\<lparr>columna_cargo := Some i\<rparr>
            else if py_in ''FECHA'' col_upper \<and> py_in ''ENCUESTA'' col_upper
            then cs\<lparr>columna_fecha_encuesta := Some i\<rparr>
            else cs))"

definition texto_columna :: "fila \<Rightarrow> nat option \<Rightarrow> string" where
  \<comment> \<open>\<open>str(row.get(col, '')).strip() if col else ''\<close>\<close>
  "texto_columna row col = (case col of None \<Rightarrow> [] | Some i \<Rightarrow> py_strip (py_str_cell (celda row i)))"

definition ESPECIALIZACION_acento :: string where
  "ESPECIALIZACION_acento = ''ESPECIALIZACI'' @ [char_of (211::nat)] @ ''N''"

definition tipo_de_programa :: "string \<Rightarrow> string" where
  "tipo_de_programa prog =
     (if py_in ESPECIALIZACION_acento (py_upper prog) \<or> py_in ''ESPECIALIZACION'' (py_upper prog)
      then ESPECIALIZACION_acento
      else if py_in MAESTRIA_acento (py_upper prog) \<or> py_in ''MAESTRIA'' (py_upper prog)
      then MAESTRIA_acento
      else if py_in ''DOCTORADO'' (py_upper prog) then ''DOCTORADO''
      else ''PREGRADO'')"

definition clave_egresado :: "string \<Rightarrow> string \<Rightarrow> int \<Rightarrow> string" where
  \<comment> \<open>the f-string \<open>{nombre_completo}_{programa}_{a\~no}\<close>\<close>
  "clave_egresado nombre_completo prog a = nombre_completo @ ''_'' @ prog @ ''_'' @ py_str_int a"

definition reemplaza :: "fecha option \<Rightarrow> fecha option \<Rightarrow> py_error + bool" where
  \<comment> \<open>whether a duplicate with survey date \<open>fecha_encuesta\<close> replaces the record kept,
      whose survey date is \<open>fecha_existente\<close>, or the exception of the comparison\<close>
  "reemplaza fecha_encuesta fecha_existente =
     (case (fecha_encuesta, fecha_existente) of
        (Some n, Some e) \<Rightarrow> fecha_mayor n e
      | (Some n, None) \<Rightarrow> Inr True
      | _ \<Rightarrow> Inr False)"

definition guardar ::
    "registros_unicos \<Rightarrow> string \<times> egresado \<times> fecha option \<Rightarrow> py_error + registros_unicos" where
  \<comment> \<open>what the loop does with one new record and its key: the dictionary after it, or
      the exception raised, which leaves the dictionary as it was\<close>
  "guardar regs kr =
     (case map_of regs (fst kr) of
        None \<Rightarrow> Inr (AList.update (fst kr) (snd kr) regs)
      | Some registro_existente \<Rightarrow>
          (case reemplaza (snd (snd kr)) (snd registro_existente) of
             Inl e \<Rightarrow> Inl e
           | Inr b \<Rightarrow> if b then Inr (AList.update (fst kr) (snd kr) regs) else Inr regs))"

definition nuevos_de_fila ::
    "(string \<Rightarrow> fecha option) \<Rightarrow> string \<Rightarrow> columnas_t \<Rightarrow> fila \<Rightarrow> (string \<times> egresado \<times> fecha option) list" where
  \<comment> \<open>the keys and new records that one row of the table gives, one for each entry of
      \<open>extraer_programas_y_fechas\<close>\<close>
  "nuevos_de_fila to_datetime archivo_name cs row =
     (let programa_str = (case columna_programa cs of None \<Rightarrow> Some [] | Some i \<Rightarrow> celda row i);
          nombre = texto_columna row (columna_nombres cs);
          apellido = texto_columna row (columna_apellidos cs);
          documento = texto_columna row (columna_documento cs);
          info_ocupacional = texto_columna row (columna_info_ocupacional cs);
          cargo = texto_columna row (columna_cargo cs);
          fecha_encuesta_str = texto_columna row (columna_fecha_encuesta cs);
          fecha_encuesta = (if fecha_encuesta_str \<noteq> [] \<and> fecha_encuesta_str \<noteq> ''nan''
                            then to_datetime fecha_encuesta_str else None);
          nombre_completo0 = py_strip (nombre @ '' '' @ apellido);
          nombre_completo = (if nombre_completo0 = [] \<and> documento \<noteq> []
                             then ''Doc_'' @ documento else nombre_completo0)
      in map (\<lambda>prog_info.
                (clave_egresado nombre_completo (programa prog_info) (anio prog_info),
                 \<lparr>Archivo_t = archivo_name, Documento_t = documento, Nombre_t = nombre_completo,
                  Programa_t = programa prog_info,
                  Tipo_Programa_t = tipo_de_programa (programa prog_info),
                  Anio_Grado_t = anio prog_info, Fecha_Grado_t = fecha_completa prog_info,
                  Informacion_Ocupacional_t = info_ocupacional, Cargo_t = cargo\<rparr>,
                 fecha_encuesta))
             (extraer_programas_y_fechas programa_str))"

text \<open>
  \<open>registros_unicos\<close> is updated in place, so when a loop is left by an exception the
  dictionary stays as the records stored until then made it. The loops return the
  dictionary with the exception that ended them, if any.
\<close>

fun guardar_programas ::
    "registros_unicos \<Rightarrow> (string \<times> egresado \<times> fecha option) list \<Rightarrow> registros_unicos \<times> py_error option" where
  \<comment> \<open>the loop over \<open>programas_info\<close> for one row\<close>
  "guardar_programas regs [] = (regs, None)"
| "guardar_programas regs (kr # krs) =
     (case guardar regs kr of
        Inl e \<Rightarrow> (regs, Some e)
      | Inr regs' \<Rightarrow> guardar_programas regs' krs)"

fun procesar_encuestas ::
    "(string \<Rightarrow> fecha option) \<Rightarrow> string \<Rightarrow> columnas_t \<Rightarrow> fila list \<Rightarrow> registros_unicos \<Rightarrow>
     registros_unicos \<times> py_error option" where
  \<comment> \<open>the loop over \<open>df.iterrows()\<close>, with the loop over \<open>programas_info\<close> inside\<close>
  "procesar_encuestas to_datetime archivo_name cs [] regs = (regs, None)"
| "procesar_encuestas to_datetime archivo_name cs (row # rows) regs =
     (case guardar_programas regs (nuevos_de_fila to_datetime archivo_name cs row) of
        (regs', Some e) \<Rightarrow> (regs', Some e)
      | (regs', None) \<Rightarrow> procesar_encuestas to_datetime archivo_name cs rows regs')"

definition procesar_archivo_t ::
    "(string \<Rightarrow> fecha option) \<Rightarrow> archivo \<Rightarrow> registros_unicos \<Rightarrow>
     registros_unicos \<times> py_error option \<times> mensaje list" where
  \<comment> \<open>the \<open>try\<close> block for one file: the dictionary when the block is left, the exception
      that ended it, if any, and what the block printed\<close>
  "procesar_archivo_t to_datetime a regs =
     (case leer_tabla a of
        Inl e \<Rightarrow> (regs, Some e, [])
      | Inr df \<Rightarrow>
          (let cs = buscar_columnas (columnas df) 0 sin_columnas
           in if columna_programa cs = None then (regs, None, [ColumnaNoEncontrada (nombre_archivo a)])
              else (case procesar_encuestas to_datetime (nombre_archivo a) cs (filas df) regs of
                      (regs', err) \<Rightarrow> (regs', err, []))))"

definition paso_archivo_t ::
    "(string \<Rightarrow> fecha option) \<Rightarrow> registros_unicos \<times> mensaje list \<Rightarrow> archivo \<Rightarrow> registros_unicos \<times> mensaje list" where
  \<comment> \<open>the body of the loop over the files, with its \<open>except Exception\<close> handler, which
      prints the error and goes on\<close>
  "paso_archivo_t to_datetime s a =
     (if \<not> existe a then (fst s, snd s @ [ArchivoNoEncontrado (nombre_archivo a)])
      else (case procesar_archivo_t to_datetime a (fst s) of
              (regs, None, ms) \<Rightarrow> (regs, snd s @ ms)
            | (regs, Some e, ms) \<Rightarrow> (regs, snd s @ ms @ [ErrorAlProcesar (nombre_archivo a) e])))"

definition analizar_todos_egresados ::
    "(string \<Rightarrow> fecha option) \<Rightarrow> archivo list \<Rightarrow> egresado list \<times> mensaje list" where
  \<comment> \<open>the files in order, then \<open>resultados_detallados\<close>: the records without their survey date\<close>
  "analizar_todos_egresados to_datetime archivos =
     (case foldl (paso_archivo_t to_datetime) ([], []) archivos of
        (regs, ms) \<Rightarrow> (map (\<lambda>kr. fst (snd kr)) regs, ms))"

definition clave_de :: "egresado \<Rightarrow> string" where
  \<comment> \<open>the composite key of a record: name, program and graduation year\<close>
  "clave_de r = clave_egresado (Nombre_t r) (Programa_t r) (Anio_Grado_t r)"

definition fecha_le :: "fecha option \<Rightarrow> fecha option \<Rightarrow> bool" where
  \<comment> \<open>the order of survey dates: no date is before any date, and two time stamps compare
      when both have a time zone or both have none\<close>
  "fecha_le a b =
     (case (a, b) of
        (None, _) \<Rightarrow> True
      | (Some (Timestamp za x), Some (Timestamp zb y)) \<Rightarrow> za = zb \<and> x \<le> y
      | _ \<Rightarrow> False)"

subsection \<open>app.py\<close>

record cargo_directivo =
  Archivo_a :: string
  Nombre_a :: string
  Cargo_a :: string
  Programa_a :: cell
  Empresa_a :: cell

definition palabras_directivas :: "string list" where
  "palabras_directivas =
     [''gerente'', ''director'', ''jefe'', ''coordinador'', ''supervisor'',
      ''presidente'', ''vicepresidente'', ''subdirector'', ''subgerente'',
      ''juez'', ''rector'', ''juridico'', ''lider'', ''lider'', ''administrador'',
      ''ejecutivo'', ''manager'', ''chief'']"

text \<open>
  The column of the job title is looked for with four lists of words, in order. The second
  list contains the character U+FFFD, which no text of the modelled alphabet contains, so
  it selects no column here.
\<close>

definition variaciones_busqueda :: "(string list) option list" where
  "variaciones_busqueda = [Some [''cargo'', ''desempe''], None, Some [''cargo'', ''desempena''], Some [''cargo'']]"

definition coincide :: "(string list) option \<Rightarrow> string \<Rightarrow> bool" where
  "coincide variacion col =
     (case variacion of None \<Rightarrow> False | Some partes \<Rightarrow> list_all (\<lambda>parte. py_in parte (py_lower col)) partes)"

fun buscar_columna_cargo :: "(string list) option list \<Rightarrow> string list \<Rightarrow> nat option" where
  "buscar_columna_cargo [] cols = None"
| "buscar_columna_cargo (variacion # rest) cols =
     (case indice_columna (coincide variacion) cols 0 of
        Some i \<Rightarrow> Some i
      | None \<Rightarrow> buscar_columna_cargo rest cols)"

definition es_directivo :: "string \<Rightarrow> bool" where
  "es_directivo cargo = list_ex (\<lambda>palabra. py_in palabra cargo) palabras_directivas"

fun cargos_de_filas :: "string \<Rightarrow> dataframe \<Rightarrow> nat \<Rightarrow> fila list \<Rightarrow> cargo_directivo list" where
  \<comment> \<open>the loop over the rows of \<open>df_valido\<close> (the rows whose job title is neither NaN nor
      empty), with what it appends to \<open>cargos_directivos\<close>\<close>
  "cargos_de_filas archivo_name df i [] = []"
| "cargos_de_filas archivo_name df i (row # rows) =
     (case celda row i of
        None \<Rightarrow> cargos_de_filas archivo_name df i rows
      | Some c \<Rightarrow>
          if c = [] then cargos_de_filas archivo_name df i rows
          else if es_directivo (py_lower c)
          then \<lparr>Archivo_a = archivo_name,
                Nombre_a = py_strip (py_str_cell (row_get df row ''NOMBRES'' (Some [])) @ '' '' @
                                     py_str_cell (row_get df row ''APELLIDOS'' (Some []))),
                Cargo_a = c,
                Programa_a = row_get df row ''PROGRAMA(S)'' (Some ''N/A''),
                Empresa_a = row_get df row ''Nombre de la empresa'' (Some ''N/A'')\<rparr>
               # cargos_de_filas archivo_name df i rows
          else cargos_de_filas archivo_name df i rows)"

definition procesar_archivo_a :: "archivo \<Rightarrow> py_error + (cargo_directivo list \<times> mensaje list)" where
  \<comment> \<open>the \<open>try\<close> block for one file: the exception raised, or what it adds to
      \<open>resultados_totales\<close> and what it prints\<close>
  "procesar_archivo_a a =
     (case leer_tabla a of
        Inl e \<Rightarrow> Inl e
      | Inr df \<Rightarrow>
          (case buscar_columna_cargo variaciones_busqueda (columnas df) of
             None \<Rightarrow> Inr ([], [ColumnaNoEncontrada (nombre_archivo a)])
           | Some i \<Rightarrow> Inr (cargos_de_filas (nombre_archivo a) df i (filas df), [])))"

definition paso_archivo_a ::
    "cargo_directivo list \<times> mensaje list \<Rightarrow> archivo \<Rightarrow> cargo_directivo list \<times> mensaje list" where
  \<comment> \<open>the body of the loop over the files, with its \<open>except Exception\<close> handler\<close>
  "paso_archivo_a s a =
     (if \<not> existe a then (fst s, snd s @ [ArchivoNoEncontrado (nombre_archivo a)])
      else (case procesar_archivo_a a of
              Inl e \<Rightarrow> (fst s, snd s @ [ErrorAlProcesar (nombre_archivo a) e])
            | Inr (cargos, ms) \<Rightarrow> (fst s @ cargos, snd s @ ms)))"

definition analizar_cargos_directivos :: "archivo list \<Rightarrow> cargo_directivo list \<times> mensaje list" where
  "analizar_cargos_directivos archivos = foldl paso_archivo_a ([], []) archivos"

section \<open>The runs of the scripts over their files\<close>

text \<open>
  The posgrados scripts take one file for each year. \<open>ap_leer enc\<close> stands for
  \<open>pd.read_csv(path, sep=';', header=None, dtype=str, encoding=enc)\<close> on the file.
\<close>

record archivo_posgrados =
  ap_existe :: bool
  ap_leer :: "encoding \<Rightarrow> py_error + fila list"
  ap_anio :: int

fun procesar_anios :: "string set \<Rightarrow> archivo_posgrados list \<Rightarrow> estudiante list \<Rightarrow> py_error + estudiante list" where
  \<comment> \<open>egresados\_posgrados.py, the loop of \<open>main\<close> over the years: it has no handler, and
      \<open>todos_resultados\<close> is extended with the records of each file\<close>
  "procesar_anios cedulas_egresados [] todos_resultados = Inr todos_resultados"
| "procesar_anios cedulas_egresados (f # fs) todos_resultados =
     (if \<not> ap_existe f then procesar_anios cedulas_egresados fs todos_resultados
      else (case procesar_archivo_posgrados (ap_leer f) cedulas_egresados (ap_anio f) of
              Inl e \<Rightarrow> Inl e
            | Inr resultados_f \<Rightarrow> procesar_anios cedulas_egresados fs (todos_resultados @ resultados_f)))"

fun limpiar_anios :: "archivo_posgrados list \<Rightarrow> registro_limpio list \<Rightarrow> py_error + registro_limpio list" where
  \<comment> \<open>limpiar\_csv\_posgrados.py, the loop of \<open>main\<close> over the files: it has no handler\<close>
  "limpiar_anios [] todos_registros = Inr todos_registros"
| "limpiar_anios (f # fs) todos_registros =
     (if \<not> ap_existe f then limpiar_anios fs todos_registros
      else (case procesar_archivo_posgrados_limpiar (ap_leer f) (ap_anio f) of
              Inl e \<Rightarrow> Inl e
            | Inr registros_f \<Rightarrow> limpiar_anios fs (todos_registros @ registros_f)))"

fun claves_emitidas :: "string set \<Rightarrow> int \<Rightarrow> estado \<Rightarrow> fila list \<Rightarrow> string list" where
  \<comment> \<open>the keys of the records that the loop of \<open>procesar_archivo_posgrados\<close> appends, in
      order: for each row that appends a record, the key of its c\'edula and of the
      program that is current at that row\<close>
  "claves_emitidas ced a st [] = []"
| "claves_emitidas ced a st (row # rows) =
     (case procesar_fila ced a st row of
        Inl e \<Rightarrow> []
      | Inr st' \<Rightarrow>
          (if length (resultados st) < length (resultados st')
           then [clave_unica (Identificacion (last (resultados st'))) (programa_actual st')]
           else []) @ claves_emitidas ced a st' rows)"

definition nuevos_de_archivo ::
    "(string \<Rightarrow> fecha option) \<Rightarrow> archivo \<Rightarrow> (string \<times> egresado \<times> fecha option) list" where
  \<comment> \<open>the keys and new records of one file of totalxano.py, in the order of the loops: none
      for a file that is missing, that cannot be read, or that has no column of programs\<close>
  "nuevos_de_archivo to_datetime a =
     (if \<not> existe a then []
      else (case leer_tabla a of
              Inl e \<Rightarrow> []
            | Inr df \<Rightarrow>
                (let cs = buscar_columnas (columnas df) 0 sin_columnas
                 in if columna_programa cs = None then []
                    else concat (map (nuevos_de_fila to_datetime (nombre_archivo a) cs) (filas df)))))"

fun completados ::
    "registros_unicos \<Rightarrow> (string \<times> egresado \<times> fecha option) list \<Rightarrow> (string \<times> egresado \<times> fecha option) list" where
  \<comment> \<open>the new records that the loops handle before an exception, if any, ends them\<close>
  "completados regs [] = []"
| "completados regs (kr # krs) =
     (case guardar regs kr of Inl e \<Rightarrow> [] | Inr regs' \<Rightarrow> kr # completados regs' krs)"

fun vistos ::
    "(string \<Rightarrow> fecha option) \<Rightarrow> registros_unicos \<Rightarrow> archivo list \<Rightarrow> (string \<times> egresado \<times> fecha option) list" where
  \<comment> \<open>the new records handled in a run over the files, from a given dictionary\<close>
  "vistos to_datetime regs [] = []"
| "vistos to_datetime regs (a # archivos) =
     completados regs (nuevos_de_archivo to_datetime a) @
     vistos to_datetime (fst (guardar_programas regs (nuevos_de_archivo to_datetime a))) archivos"

definition sin_NaT :: "(string \<times> egresado \<times> fecha option) list \<Rightarrow> string \<Rightarrow> bool" where
  \<comment> \<open>no record with this key has a survey date that failed to parse\<close>
  "sin_NaT krs k = (\<forall>kr \<in> set krs. fst kr = k \<longrightarrow> snd (snd kr) \<noteq> Some NaT)"

definition mas_reciente ::
    "(string \<times> egresado \<times> fecha option) list \<Rightarrow> (string \<rightharpoonup> egresado \<times> fecha option) \<Rightarrow> bool" where
  \<comment> \<open>the invariant of \<open>registros_unicos\<close> after the new records \<open>krs\<close>\<close>
  "mas_reciente krs m =
     ((\<forall>k v. m k = Some v \<longrightarrow>
         (k, v) \<in> set krs \<and>
         (sin_NaT krs k \<longrightarrow> (\<forall>kr \<in> set krs. fst kr = k \<longrightarrow> fecha_le (snd (snd kr)) (snd v)))) \<and>
      (\<forall>kr \<in> set krs. m (fst kr) \<noteq> None))"

definition clave_cargo :: "cargo_directivo \<Rightarrow> string" where
  \<comment> \<open>the claim's reading for app.py: a key of name and program\<close>
  "clave_cargo r = Nombre_a r @ ''_'' @ py_str_cell (Programa_a r)"

definition cargos_de_archivo :: "archivo \<Rightarrow> cargo_directivo list" where
  \<comment> \<open>what one file adds to \<open>resultados_totales\<close> of app.py: nothing for a file that is
      missing or whose processing raises\<close>
  "cargos_de_archivo a =
     (if \<not> existe a then []
      else (case procesar_archivo_a a of Inl e \<Rightarrow> [] | Inr (cargos, ms) \<Rightarrow> cargos))"

(*THEOREMS*)

section \<open>Properties of extraer\_programas\_y\_fechas\<close>

lemma isspace_not_paren: "isspace_c c \<Longrightarrow> c \<noteq> CHR ''(''"
  by (auto simp: isspace_c_def cp_def)

lemma isdecimal_not_paren: "isdecimal_c c \<Longrightarrow> c \<noteq> CHR ''(''"
  by (auto simp: isdecimal_c_def cp_def)

text \<open>A match consumes its opening parenthesis and a body without any other one.\<close>

lemma match_fecha_shape:
  assumes "match_fecha (c # cs) = Some (g, n)"
  shows "\<exists>body r3. cs = body @ r3 \<and> n = Suc (length body) \<and> (\<forall>x \<in> set body. x \<noteq> CHR ''('')"
proof -
  from assms have c: "c = CHR ''(''" by (auto split: if_splits)
  from assms c obtain y1 y2 y3 y4 h1 m1 m2 h2 d1 d2 r2 where
    d: "dropWhile isspace_c cs = y1 # y2 # y3 # y4 # h1 # m1 # m2 # h2 # d1 # d2 # r2"
    by (auto split: list.splits)
  from assms c d have ok: "list_all isdecimal_c [y1, y2, y3, y4, m1, m2, d1, d2]"
      "h1 = CHR ''-''" "h2 = CHR ''-''"
    by (auto split: if_splits)
  from assms c d ok obtain r3 where
    e: "dropWhile isspace_c r2 = CHR '')'' # r3" and n: "n = length (c # cs) - length r3"
    by (auto split: list.splits if_splits)
  let ?body = "takeWhile isspace_c cs @ [y1, y2, y3, y4, h1, m1, m2, h2, d1, d2] @
               takeWhile isspace_c r2 @ [CHR '')'']"
  have r2: "r2 = takeWhile isspace_c r2 @ CHR '')'' # r3"
    using e takeWhile_dropWhile_id[of isspace_c r2] by simp
  have cs: "cs = ?body @ r3"
    using d r2 takeWhile_dropWhile_id[of isspace_c cs] by simp
  have len: "n = Suc (length ?body)"
    using n arg_cong[OF cs, of length] by simp
  have np: "\<forall>x \<in> set ?body. x \<noteq> CHR ''(''"
    using ok by (auto dest: set_takeWhileD isspace_not_paren isdecimal_not_paren)
  from cs len np show ?thesis by blast
qed

lemma findall_skip:
  "\<forall>x \<in> set body. x \<noteq> CHR ''('' \<Longrightarrow> findall_fecha (length body) (body @ r) = findall_fecha 0 r"
  by (induction body) auto

lemma match_fecha_not_paren: "c \<noteq> CHR ''('' \<Longrightarrow> match_fecha (c # cs) = None"
  by simp

lemma fechas_en_skip:
  "\<forall>x \<in> set body. x \<noteq> CHR ''('' \<Longrightarrow> fechas_en (body @ r) = fechas_en r"
  by (induction body) (auto simp del: match_fecha.simps simp: match_fecha_not_paren)

text \<open>
  Two matches never overlap, so the left-to-right scan of \<open>re.findall\<close> finds every
  occurrence of the pattern.
\<close>

lemma findall_fecha_fechas_en: "findall_fecha 0 s = fechas_en s"
proof (induction "length s" arbitrary: s rule: less_induct)
  case less
  show ?case
  proof (cases s)
    case Nil
    then show ?thesis by simp
  next
    case (Cons c cs)
    show ?thesis
    proof (cases "match_fecha (c # cs)")
      case None
      with Cons less show ?thesis by (simp del: match_fecha.simps)
    next
      case (Some p)
      obtain g n where p: "p = (g, n)" by (cases p)
      from match_fecha_shape[OF Some[unfolded p]] obtain body r3 where
        b: "cs = body @ r3" "n = Suc (length body)" "\<forall>x \<in> set body. x \<noteq> CHR ''(''" by blast
      have "findall_fecha 0 s = g # findall_fecha (length body) (body @ r3)"
        using Cons Some p b by (simp del: match_fecha.simps)
      also have "\<dots> = g # findall_fecha 0 r3" using b(3) by (simp add: findall_skip)
      also have "\<dots> = g # fechas_en r3" using less[of r3] Cons b(1) by simp
      also have "\<dots> = g # fechas_en cs" using b by (simp add: fechas_en_skip)
      also have "\<dots> = fechas_en s" using Cons Some p by (simp del: match_fecha.simps)
      finally show ?thesis .
    qed
  qed
qed

lemma extraer_parte_entry:
  assumes "e \<in> set (extraer_parte parte)"
  shows "fechas_en parte \<noteq> [] \<and> anio e = anio_de (last (fechas_en parte)) \<and>
         2021 \<le> anio e \<and> anio e \<le> 2025 \<and>
         programa e = py_strip (takeWhile (\<lambda>c. c \<noteq> CHR ''('') parte)"
proof -
  obtain a mes dia where l: "last (fechas_en parte) = (a, mes, dia)"
    by (cases "last (fechas_en parte)")
  from assms show ?thesis
    by (auto simp: extraer_parte_def findall_fecha_fechas_en anio_de_def Let_def l
             split: if_splits)
qed

lemma extraer_parte_sin_fecha: "fechas_en parte = [] \<Longrightarrow> extraer_parte parte = []"
  by (simp add: extraer_parte_def findall_fecha_fechas_en)

lemma extraer_parte_fuera_de_rango:
  "\<not> (2021 \<le> anio_de (last (fechas_en parte)) \<and> anio_de (last (fechas_en parte)) \<le> 2025)
   \<Longrightarrow> extraer_parte parte = []"
  by (cases "last (fechas_en parte)")
     (auto simp: extraer_parte_def findall_fecha_fechas_en anio_de_def Let_def)

lemma extraer_programas_y_fechas_partes:
  "extraer_programas_y_fechas (Some s) = concat (map extraer_parte (py_split_sep '' - '' s))"
  by (simp add: extraer_programas_y_fechas_def py_split_sep_def extraer_parte_def)

text \<open>
  Claim C10. Every entry returned by \<open>extraer_programas_y_fechas\<close> has a year between 2021
  and 2025. The result is the concatenation, over the parts of the input split at
  \<open>' - '\<close>, of what each part contributes; an entry of a part takes its year from the last
  parenthesized date occurring in the part and its name from the text before the first
  opening parenthesis, stripped; a part without a parenthesized date, or whose last date
  has a year outside 2021..2025, contributes nothing.
\<close>

theorem extraer_programas_y_fechas_entries:
  "(\<forall>e \<in> set (extraer_programas_y_fechas c). 2021 \<le> anio e \<and> anio e \<le> 2025) \<and>
   extraer_programas_y_fechas (Some s) = concat (map extraer_parte (py_split_sep '' - '' s)) \<and>
   (\<forall>e \<in> set (extraer_parte parte).
      fechas_en parte \<noteq> [] \<and> anio e = anio_de (last (fechas_en parte)) \<and>
      programa e = py_strip (takeWhile (\<lambda>c. c \<noteq> CHR ''('') parte)) \<and>
   (fechas_en parte = [] \<longrightarrow> extraer_parte parte = []) \<and>
   (\<not> (2021 \<le> anio_de (last (fechas_en parte)) \<and> anio_de (last (fechas_en parte)) \<le> 2025)
      \<longrightarrow> extraer_parte parte = [])"
proof -
  have "2021 \<le> anio e \<and> anio e \<le> 2025" if "e \<in> set (extraer_programas_y_fechas c)" for e
  proof (cases c)
    case None
    with that show ?thesis by (simp add: extraer_programas_y_fechas_def)
  next
    case (Some s')
    with that obtain p where "e \<in> set (extraer_parte p)"
      by (auto simp: extraer_programas_y_fechas_def split: if_splits)
    then show ?thesis using extraer_parte_entry by blast
  qed
  then show ?thesis
    using extraer_programas_y_fechas_partes extraer_parte_entry extraer_parte_sin_fecha
      extraer_parte_fuera_de_rango by blast
qed

theorem extraer_programas_y_fechas_entries_witness:
  "extraer_programas_y_fechas
     (Some ''DERECHO( PEREIRA )( 2022-06-30 ) - CONTADURIA( CALI )(2019-12-13) - ECONOMIA'') =
     [\<lparr>programa = ''DERECHO'', anio = 2022, fecha_completa = ''2022-06-30''\<rparr>] \<and>
   py_split_sep '' - '' ''DERECHO( PEREIRA )( 2022-06-30 ) - CONTADURIA( CALI )(2019-12-13) - ECONOMIA'' =
     [''DERECHO( PEREIRA )( 2022-06-30 )'', ''CONTADURIA( CALI )(2019-12-13)'', ''ECONOMIA''] \<and>
   fechas_en ''DERECHO( PEREIRA )( 2022-06-30 )'' = [(''2022'', ''06'', ''30'')] \<and>
   fechas_en ''ECONOMIA'' = [] \<and> extraer_parte ''ECONOMIA'' = [] \<and>
   anio_de (last (fechas_en ''CONTADURIA( CALI )(2019-12-13)'')) = 2019 \<and>
   extraer_parte ''CONTADURIA( CALI )(2019-12-13)'' = []"
proof -
  let ?s = "''DERECHO( PEREIRA )( 2022-06-30 ) - CONTADURIA( CALI )(2019-12-13) - ECONOMIA''"
  have r: "extraer_programas_y_fechas (Some ?s) =
           [\<lparr>programa = ''DERECHO'', anio = 2022, fecha_completa = ''2022-06-30''\<rparr>]"
    by code_simp
  have sp: "py_split_sep '' - '' ?s =
     [''DERECHO( PEREIRA )( 2022-06-30 )'', ''CONTADURIA( CALI )(2019-12-13)'', ''ECONOMIA'']"
    by code_simp
  have f1: "fechas_en ''DERECHO( PEREIRA )( 2022-06-30 )'' = [(''2022'', ''06'', ''30'')]"
    by code_simp
  have f2: "fechas_en ''ECONOMIA'' = []" by code_simp
  have f3: "anio_de (last (fechas_en ''CONTADURIA( CALI )(2019-12-13)'')) = 2019" by code_simp
  have f4: "\<not> (2021 \<le> anio_de (last (fechas_en ''CONTADURIA( CALI )(2019-12-13)'')) \<and>
                anio_de (last (fechas_en ''CONTADURIA( CALI )(2019-12-13)'')) \<le> 2025)"
    unfolding f3 by simp
  from extraer_programas_y_fechas_entries[of "Some ?s" ?s "''ECONOMIA''"] f2
  have e1: "extraer_parte ''ECONOMIA'' = []" by blast
  from extraer_programas_y_fechas_entries[of "Some ?s" ?s "''CONTADURIA( CALI )(2019-12-13)''"] f4
  have e2: "extraer_parte ''CONTADURIA( CALI )(2019-12-13)'' = []" by blast
  from r sp f1 f2 f3 e1 e2 show ?thesis by blast
qed

section \<open>Properties of extraer\_codigo\_programa\<close>

text \<open>
  Claim C3. The program string \<open>3210100 DERECHO\<close> has no token of exactly five digits.
  \<open>extraer_codigo_programa\<close> of limpiar\_csv\_posgrados.py returns \<open>None\<close> for it;
  the one of egresados\_posgrados.py, which tests the first token with \<open>isdigit\<close> only,
  returns the seven-digit token.
\<close>

theorem extraer_codigo_programa_token_largo:
  "extraer_codigo_programa (Some ''3210100 DERECHO'') = Some ''3210100'' \<and>
   extraer_codigo_programa_limpiar (Some ''3210100 DERECHO'') = None"
  by code_simp

section \<open>Properties of verificar\_egresado\_otro\_programa\<close>






text \<open>
  The loader leaves the year unknown for a date that has neither a slash nor a hyphen,
  such as \<open>nan\<close>, the rendering of a missing value.
\<close>

lemma extraer_anio_grado_sin_separador:
  "\<not> py_in ''/'' f \<Longrightarrow> \<not> py_in ''-'' f \<Longrightarrow> extraer_anio_grado f = None"
  by (simp add: extraer_anio_grado_def)

lemma extraer_anio_grado_ejemplos:
  "map extraer_anio_grado [''14/11/2025'', ''2025-11-14'', ''nan'', ''2025'', ''11/2025'', ''a/b/c''] =
     [Some 2025, Some 2025, None, None, None, None]"
  by code_simp

section \<open>Properties of the row scan of egresados\_posgrados.py\<close>

lemma valores_Nil [simp]: "valores [] = []"
  by (simp add: valores_def notna_def)

lemma valores_Cons_None [simp]: "valores (None # row) = valores row"
  by (simp add: valores_def notna_def)

lemma valores_Cons_Some [simp]: "valores (Some v # row) = py_strip v # valores row"
  by (simp add: valores_def notna_def)

lemma escanear_fila_cedula:
  "cedula_encontrada (escanear_fila row h) =
     (case cedula_encontrada h of
        Some c \<Rightarrow> Some c
      | None \<Rightarrow> primero (filter parece_cedula (valores row)))"
proof (induction row arbitrary: h)
  case Nil
  then show ?case by (simp add: primero_def split: option.splits)
next
  case (Cons v row)
  then show ?case
    by (cases v) (auto simp: Let_def primero_def split: option.splits)
qed

lemma escanear_fila_codigo:
  "codigo_encontrado (escanear_fila row h) =
     (case codigo_encontrado h of
        Some k \<Rightarrow> Some k
      | None \<Rightarrow> (case cedula_encontrada h of
                   Some c \<Rightarrow> primero (filter parece_cedula (valores row))
                 | None \<Rightarrow> segundo (filter parece_cedula (valores row))))"
proof (induction row arbitrary: h)
  case Nil
  then show ?case by (simp add: primero_def segundo_def split: option.splits)
next
  case (Cons v row)
  then show ?case
    by (cases v) (auto simp: Let_def primero_def segundo_def split: option.splits list.splits)
qed

text \<open>The five period literals have five characters, so excluding them changes nothing.\<close>

lemma parece_cedula_iff: "parece_cedula v \<longleftrightarrow> solo_digitos_6_12 v \<and> v \<notin> set periodos"
  by (auto simp: parece_cedula_def solo_digitos_6_12_def periodos_def)

lemma registrar_estudiante_pasos:
  "(resultados (registrar_estudiante ced a st h) = resultados st \<and>
    estudiantes_vistos (registrar_estudiante ced a st h) = estudiantes_vistos st \<and>
    programa_actual (registrar_estudiante ced a st h) = programa_actual st) \<or>
   (\<exists>n c. cedula_encontrada h = Some c \<and> nombre_encontrado h = Some n \<and> n \<noteq> [] \<and> c \<noteq> [] \<and>
          clave_unica c (programa_actual st) \<notin> estudiantes_vistos st \<and>
          programa_actual (registrar_estudiante ced a st h) = programa_actual st \<and>
          estudiantes_vistos (registrar_estudiante ced a st h) =
            insert (clave_unica c (programa_actual st)) (estudiantes_vistos st) \<and>
          resultados (registrar_estudiante ced a st h) =
            resultados st @ [nuevo_estudiante ced a (programa_actual st) n c])"
  by (cases "nombre_encontrado h"; cases "cedula_encontrada h")
     (simp_all add: registrar_estudiante_def truthy_def Let_def)

lemma procesar_fila_casos:
  assumes "procesar_fila ced a st row = Inr st'"
  shows "(\<exists>p. st' = st\<lparr>programa_actual := p\<rparr>) \<or>
         (\<exists>p. st' = registrar_estudiante ced a (st\<lparr>programa_actual := p\<rparr>) (escanear_fila row sin_hallazgo))"
proof (cases row)
  case Nil
  with assms show ?thesis by (simp add: procesar_fila_def)
next
  case (Cons c0 rest)
  from assms show ?thesis
    unfolding Cons procesar_fila_def Let_def list.case
    by (auto split: if_splits)
qed

text \<open>
  One row leaves the results as they are, or appends one student whose c\'edula is the
  first candidate of the row and whose key was not seen before.
\<close>

lemma procesar_fila_pasos:
  assumes "procesar_fila ced a st row = Inr st'"
  shows "(resultados st' = resultados st \<and> estudiantes_vistos st' = estudiantes_vistos st) \<or>
         (\<exists>n c. primero (filter parece_cedula (valores row)) = Some c \<and>
                 clave_unica c (programa_actual st') \<notin> estudiantes_vistos st \<and>
                 estudiantes_vistos st' = insert (clave_unica c (programa_actual st')) (estudiantes_vistos st) \<and>
                 resultados st' = resultados st @ [nuevo_estudiante ced a (programa_actual st') n c])"
proof -
  have ced: "cedula_encontrada (escanear_fila row sin_hallazgo) = primero (filter parece_cedula (valores row))"
    by (simp add: escanear_fila_cedula sin_hallazgo_def)
  from procesar_fila_casos[OF assms] show ?thesis
  proof (elim disjE exE)
    fix p assume "st' = st\<lparr>programa_actual := p\<rparr>"
    then show ?thesis by simp
  next
    fix p
    assume s: "st' = registrar_estudiante ced a (st\<lparr>programa_actual := p\<rparr>) (escanear_fila row sin_hallazgo)"
    from registrar_estudiante_pasos[of ced a "st\<lparr>programa_actual := p\<rparr>" "escanear_fila row sin_hallazgo"]
    show ?thesis unfolding s[symmetric] ced by (elim disjE exE conjE) auto
  qed
qed

lemma procesar_fila_no_vacia: "row \<noteq> [] \<Longrightarrow> \<exists>st'. procesar_fila ced a st row = Inr st'"
  by (cases row) (simp_all add: procesar_fila_def Let_def)

lemma procesar_filas_no_vacias:
  "\<forall>row \<in> set rows. row \<noteq> [] \<Longrightarrow> \<exists>st'. procesar_filas ced a st rows = Inr st'"
proof (induction rows arbitrary: st)
  case Nil
  then show ?case by simp
next
  case (Cons row rows)
  then obtain st1 where "procesar_fila ced a st row = Inr st1"
    using procesar_fila_no_vacia[of row ced a st] by auto
  with Cons show ?case by simp
qed

lemma Si_no_es_No: "Si \<noteq> ''No''"
  by (simp add: Si_def)

lemma nuevo_estudiante_campos:
  "Identificacion (nuevo_estudiante ced a p n c) = c"
  "Nombre (nuevo_estudiante ced a p n c) = n"
  "Es_Egresado_ULibre (nuevo_estudiante ced a p n c) = Si \<longleftrightarrow> c \<in> ced"
  "Es_Egresado_ULibre (nuevo_estudiante ced a p n c) = ''No'' \<longleftrightarrow> c \<notin> ced"
  by (simp_all add: nuevo_estudiante_def Si_no_es_No Si_no_es_No[symmetric])

lemma procesar_filas_egresado:
  assumes "procesar_filas ced a st rows = Inr st'"
    and "\<forall>r \<in> set (resultados st). (Es_Egresado_ULibre r = Si \<longleftrightarrow> Identificacion r \<in> ced) \<and>
                                     (Es_Egresado_ULibre r = ''No'' \<longleftrightarrow> Identificacion r \<notin> ced)"
  shows "\<forall>r \<in> set (resultados st'). (Es_Egresado_ULibre r = Si \<longleftrightarrow> Identificacion r \<in> ced) \<and>
                                      (Es_Egresado_ULibre r = ''No'' \<longleftrightarrow> Identificacion r \<notin> ced)"
  using assms
proof (induction rows arbitrary: st)
  case Nil
  then show ?case by simp
next
  case (Cons row rows)
  from Cons.prems(1) obtain st1 where
    s1: "procesar_fila ced a st row = Inr st1" and s2: "procesar_filas ced a st1 rows = Inr st'"
    by (auto split: sum.splits)
  have "\<forall>r \<in> set (resultados st1). (Es_Egresado_ULibre r = Si \<longleftrightarrow> Identificacion r \<in> ced) \<and>
                                      (Es_Egresado_ULibre r = ''No'' \<longleftrightarrow> Identificacion r \<notin> ced)"
    using procesar_fila_pasos[OF s1] Cons.prems(2)
    by (auto simp: nuevo_estudiante_campos)
  with Cons.IH[OF s2] show ?case by blast
qed

section \<open>The cross-reference of egresados\_posgrados.py\<close>

lemma indice_columna_cota:
  "indice_columna P cols k = Some i \<Longrightarrow> k \<le> i \<and> i - k < length cols \<and> P (cols ! (i - k))"
proof (induction cols arbitrary: k)
  case Nil
  then show ?case by simp
next
  case (Cons col cols)
  show ?case
  proof (cases "P col")
    case True
    with Cons.prems show ?thesis by simp
  next
    case False
    with Cons.prems have "indice_columna P cols (Suc k) = Some i" by simp
    from Cons.IH[OF this] have ih: "Suc k \<le> i" "i - Suc k < length cols" "P (cols ! (i - Suc k))"
      by simp_all
    from ih(1) have e: "i - k = Suc (i - Suc k)" by arith
    from ih show ?thesis unfolding e by simp
  qed
qed

text \<open>
  What \<open>cargar_base_datos_egresados\<close> loads: the stripped values of the identification
  column that are neither empty nor \<open>nan\<close>.
\<close>

lemma cedulas_de_miembro:
  "x \<in> cedulas_de df \<longleftrightarrow>
     (\<exists>i. indice_columna es_columna_identificacion (columnas df) 0 = Some i \<and>
          (\<exists>row \<in> set (filas df). \<exists>v. celda row i = Some v \<and> py_strip v = x) \<and>
          x \<noteq> [] \<and> py_lower x \<noteq> ''nan'')"
proof (cases "indice_columna es_columna_identificacion (columnas df) 0")
  case None
  then show ?thesis by (simp add: cedulas_de_def)
next
  case (Some i)
  from indice_columna_cota[OF Some] have "es_columna_identificacion (columnas df ! i)" by simp
  then have ne: "columnas df ! i \<noteq> []"
    by (auto simp: es_columna_identificacion_def py_upper_def py_strip_def)
  have n: "set (notna cs) = {v. Some v \<in> set cs}" for cs :: "cell list"
    by (induction cs) (auto simp: notna_def split: option.splits)
  show ?thesis
    using Some ne by (auto simp: cedulas_de_def n image_iff; metis)
qed

lemma cargar_base_datos_egresados_Inr:
  "cargar_base_datos_egresados leer = Inr s \<Longrightarrow>
     \<exists>df. snd (intentar_encodings leer cadena_encodings) = Some df \<and> s = cedulas_de df"
  by (auto simp: cargar_base_datos_egresados_def split: option.splits)

text \<open>
  Claim C1. With the set of c\'edulas that \<open>cargar_base_datos_egresados\<close> loaded, every
  student record that \<open>procesar_archivo_posgrados\<close> returns has \<open>Es_Egresado_ULibre\<close> equal
  to \<open>Si\<close> (with its accent) exactly when the record's c\'edula is in the set, and \<open>No\<close>
  exactly when it is not: the field is a function of that membership alone. The function
  returns its list whenever no row of the file is without cells.
\<close>

theorem es_egresado_iff_cedula_en_bdd:
  assumes "cargar_base_datos_egresados leer_bdd = Inr cedulas_egresados"
    and "procesar_archivo_posgrados leer cedulas_egresados a = Inr rs"
    and "r \<in> set rs"
  shows "(Es_Egresado_ULibre r = Si \<longleftrightarrow> Identificacion r \<in> cedulas_egresados) \<and>
         (Es_Egresado_ULibre r = ''No'' \<longleftrightarrow> Identificacion r \<notin> cedulas_egresados) \<and>
         (\<exists>df. snd (intentar_encodings leer_bdd cadena_encodings) = Some df \<and>
               cedulas_egresados = cedulas_de df)"
proof (cases "snd (intentar_encodings leer cadena_encodings)")
  case None
  with assms(2,3) show ?thesis by (simp add: procesar_archivo_posgrados_def)
next
  case (Some df)
  with assms(2) obtain st' where
    s: "procesar_filas cedulas_egresados a estado_inicial df = Inr st'" and rs: "rs = resultados st'"
    by (cases "procesar_filas cedulas_egresados a estado_inicial df")
       (auto simp: procesar_archivo_posgrados_def)
  have "\<forall>r \<in> set (resultados st').
          (Es_Egresado_ULibre r = Si \<longleftrightarrow> Identificacion r \<in> cedulas_egresados) \<and>
          (Es_Egresado_ULibre r = ''No'' \<longleftrightarrow> Identificacion r \<notin> cedulas_egresados)"
    by (rule procesar_filas_egresado[OF s]) (simp add: estado_inicial_def)
  with assms(3) rs cargar_base_datos_egresados_Inr[OF assms(1)] show ?thesis by blast
qed

theorem es_egresado_iff_cedula_en_bdd_witness:
  "cargar_base_datos_egresados
     (\<lambda>enc. Inr \<lparr>columnas = [''NOMBRE'', ''No. IDENTIFICACION''],
                 filas = [[Some ''X'', Some '' 10012345 ''], [Some ''Y'', None]]\<rparr>) =
     Inr {''10012345''} \<and>
   map_sum id (map (\<lambda>r. (Identificacion r, Es_Egresado_ULibre r)))
     (procesar_archivo_posgrados
        (\<lambda>enc. Inr [[Some ''32101 ESPECIALIZACION EN DERECHO'', None, None, None],
                    [None, Some ''PEREZ GOMEZ JUAN'', Some ''10012345'', Some ''202110001''],
                    [None, Some ''LOPEZ DIAZ ANA'', Some '' 20054321 '', None]])
        {''10012345''} 2021) =
     Inr [(''10012345'', Si), (''20054321'', ''No'')] \<and>
   ''10012345'' \<in> {''10012345''} \<and> ''20054321'' \<notin> {''10012345''}"
proof -
  let ?L = "\<lambda>enc :: encoding. Inr \<lparr>columnas = [''NOMBRE'', ''No. IDENTIFICACION''],
                 filas = [[Some ''X'', Some '' 10012345 ''], [Some ''Y'', None]]\<rparr> :: py_error + dataframe"
  let ?R = "\<lambda>enc :: encoding. Inr [[Some ''32101 ESPECIALIZACION EN DERECHO'', None, None, None],
                    [None, Some ''PEREZ GOMEZ JUAN'', Some ''10012345'', Some ''202110001''],
                    [None, Some ''LOPEZ DIAZ ANA'', Some '' 20054321 '', None]] :: py_error + fila list"
  let ?r1 = "\<lparr>Anio = 2021, Programa_Codigo = Some ''32101'',
              Programa_Nombre = Some ''32101 ESPECIALIZACION EN DERECHO'',
              Nombre = ''PEREZ GOMEZ JUAN'', Identificacion = ''10012345'',
              Es_Egresado_ULibre = Si\<rparr>"
  let ?r2 = "\<lparr>Anio = 2021, Programa_Codigo = Some ''32101'',
              Programa_Nombre = Some ''32101 ESPECIALIZACION EN DERECHO'',
              Nombre = ''LOPEZ DIAZ ANA'', Identificacion = ''20054321'',
              Es_Egresado_ULibre = ''No''\<rparr>"
  have c: "cargar_base_datos_egresados ?L = Inr {''10012345''}"
    by code_simp
  have p: "procesar_archivo_posgrados ?R {''10012345''} 2021 = Inr [?r1, ?r2]"
    by code_simp
  have m1: "?r1 \<in> set [?r1, ?r2]" and m2: "?r2 \<in> set [?r1, ?r2]" by simp_all
  from es_egresado_iff_cedula_en_bdd[OF c p m1]
  have i1: "''10012345'' \<in> {''10012345''}" by simp
  from es_egresado_iff_cedula_en_bdd[OF c p m2]
  have i2: "''20054321'' \<notin> {''10012345''}" by simp
  from c p i1 i2 show ?thesis by simp
qed

section \<open>Properties of the row scan of limpiar\_csv\_posgrados.py\<close>

lemma py_isdigit_Nil [simp]: "\<not> py_isdigit []"
  by (simp add: py_isdigit_def)

lemma py_strip_Nil [simp]: "py_strip [] = []"
  by (simp add: py_strip_def)

lemma filtrar_candidatos_fillna:
  "filter solo_digitos_6_12 (map (py_strip \<circ> fillna) row) = filter solo_digitos_6_12 (valores row)"
proof (induction row)
  case Nil
  then show ?case by simp
next
  case (Cons v row)
  then show ?case by (cases v) (simp_all add: fillna_def solo_digitos_6_12_def)
qed

lemma escanear_fila_limpiar_cedula:
  "cedula_l (escanear_fila_limpiar vs h) =
     (case cedula_l h of
        Some c \<Rightarrow> Some c
      | None \<Rightarrow> primero (filter solo_digitos_6_12 (map py_strip vs)))"
proof (induction vs arbitrary: h)
  case Nil
  then show ?case by (simp add: primero_def split: option.splits)
next
  case (Cons v vs)
  then show ?case
    by (auto simp: Let_def primero_def solo_digitos_6_12_def split: option.splits)
qed

lemma escanear_fila_limpiar_codigo:
  "codigo_l (escanear_fila_limpiar vs h) =
     (case codigo_l h of
        Some k \<Rightarrow> Some k
      | None \<Rightarrow> (case cedula_l h of
                   Some c \<Rightarrow> primero (filter solo_digitos_6_12 (map py_strip vs))
                 | None \<Rightarrow> segundo (filter solo_digitos_6_12 (map py_strip vs))))"
proof (induction vs arbitrary: h)
  case Nil
  then show ?case by (simp add: primero_def segundo_def split: option.splits)
next
  case (Cons v vs)
  then show ?case
    by (auto simp: Let_def primero_def segundo_def solo_digitos_6_12_def
             split: option.splits list.splits)
qed

lemma procesar_fila_limpiar_casos:
  assumes "procesar_fila_limpiar a st row = Inr st'"
  shows "registros st' = registros st \<or>
         (\<exists>n. st' = registrar_limpio a st n (escanear_fila_limpiar (map fillna row) sin_hallazgo_limpiar))"
proof (cases "map fillna row")
  case Nil
  with assms show ?thesis by (simp add: procesar_fila_limpiar_def)
next
  case (Cons v0 rest)
  from assms show ?thesis
    unfolding procesar_fila_limpiar_def Cons Let_def list.case
    by (auto split: if_splits)
qed

lemma procesar_fila_limpiar_pasos:
  assumes "procesar_fila_limpiar a st row = Inr st'"
  shows "registros st' = registros st \<or>
         (\<exists>r. registros st' = registros st @ [r] \<and>
              primero (filter solo_digitos_6_12 (valores row)) = Some (Cedula r) \<and>
              Codigo_Estudiante r = o_vacio (segundo (filter solo_digitos_6_12 (valores row))))"
proof -
  let ?h = "escanear_fila_limpiar (map fillna row) sin_hallazgo_limpiar"
  have c: "cedula_l ?h = primero (filter solo_digitos_6_12 (valores row))"
    by (simp add: escanear_fila_limpiar_cedula sin_hallazgo_limpiar_def filtrar_candidatos_fillna)
  have k: "codigo_l ?h = segundo (filter solo_digitos_6_12 (valores row))"
    by (simp add: escanear_fila_limpiar_codigo sin_hallazgo_limpiar_def filtrar_candidatos_fillna)
  from procesar_fila_limpiar_casos[OF assms] show ?thesis
  proof (elim disjE exE)
    assume "registros st' = registros st"
    then show ?thesis by simp
  next
    fix n assume s: "st' = registrar_limpio a st n ?h"
    show ?thesis
    proof (cases "\<not> truthy (cedula_l ?h) \<or> length (the (cedula_l ?h)) < 6")
      case True
      with s show ?thesis by (simp add: registrar_limpio_def)
    next
      case False
      then obtain x where x: "cedula_l ?h = Some x" by (auto simp: truthy_def split: option.splits)
      from False s x c k show ?thesis by (simp add: registrar_limpio_def)
    qed
  qed
qed

lemma procesar_fila_limpiar_no_vacia: "row \<noteq> [] \<Longrightarrow> \<exists>st'. procesar_fila_limpiar a st row = Inr st'"
  by (cases row) (simp_all add: procesar_fila_limpiar_def Let_def)

section \<open>The c\'edula is the first candidate of the row\<close>

lemma parece_cedula_fun: "parece_cedula = (\<lambda>v. solo_digitos_6_12 v \<and> v \<notin> set periodos)"
  by (rule ext) (rule parece_cedula_iff)

lemma primero_Nil_iff: "primero xs = None \<longleftrightarrow> xs = []"
  by (cases xs) (simp_all add: primero_def)

text \<open>
  Claim C2. In both scripts the scan of a row classifies as the c\'edula the first cell
  value, in column order, that consists solely of digits and has 6 to 12 characters (in
  egresados\_posgrados.py also not one of the five period literals), and as the student
  code the second such value. A record that a row yields carries that c\'edula (and, in
  limpiar\_csv\_posgrados.py, that code, or the empty string when there is none); a row
  without such a value yields no record.
\<close>

theorem cedula_es_primer_candidato:
  "cedula_encontrada (escanear_fila row sin_hallazgo) =
     primero (filter (\<lambda>v. solo_digitos_6_12 v \<and> v \<notin> set periodos) (valores row)) \<and>
   codigo_encontrado (escanear_fila row sin_hallazgo) =
     segundo (filter (\<lambda>v. solo_digitos_6_12 v \<and> v \<notin> set periodos) (valores row)) \<and>
   cedula_l (escanear_fila_limpiar (map fillna row) sin_hallazgo_limpiar) =
     primero (filter solo_digitos_6_12 (valores row)) \<and>
   codigo_l (escanear_fila_limpiar (map fillna row) sin_hallazgo_limpiar) =
     segundo (filter solo_digitos_6_12 (valores row)) \<and>
   (procesar_fila ced a st row = Inr st' \<longrightarrow>
      (resultados st' = resultados st \<or>
       (\<exists>r. resultados st' = resultados st @ [r] \<and>
            primero (filter (\<lambda>v. solo_digitos_6_12 v \<and> v \<notin> set periodos) (valores row)) =
              Some (Identificacion r))) \<and>
      (filter (\<lambda>v. solo_digitos_6_12 v \<and> v \<notin> set periodos) (valores row) = [] \<longrightarrow>
         resultados st' = resultados st)) \<and>
   (procesar_fila_limpiar a stl row = Inr stl' \<longrightarrow>
      (registros stl' = registros stl \<or>
       (\<exists>r. registros stl' = registros stl @ [r] \<and>
            primero (filter solo_digitos_6_12 (valores row)) = Some (Cedula r) \<and>
            Codigo_Estudiante r = o_vacio (segundo (filter solo_digitos_6_12 (valores row))))) \<and>
      (filter solo_digitos_6_12 (valores row) = [] \<longrightarrow> registros stl' = registros stl))"
proof -
  let ?cand = "\<lambda>v. solo_digitos_6_12 v \<and> v \<notin> set periodos"
  have e1: "cedula_encontrada (escanear_fila row sin_hallazgo) = primero (filter ?cand (valores row))"
    by (simp add: escanear_fila_cedula sin_hallazgo_def parece_cedula_fun)
  have e2: "codigo_encontrado (escanear_fila row sin_hallazgo) = segundo (filter ?cand (valores row))"
    by (simp add: escanear_fila_codigo sin_hallazgo_def parece_cedula_fun)
  have l1: "cedula_l (escanear_fila_limpiar (map fillna row) sin_hallazgo_limpiar) =
            primero (filter solo_digitos_6_12 (valores row))"
    by (simp add: escanear_fila_limpiar_cedula sin_hallazgo_limpiar_def filtrar_candidatos_fillna)
  have l2: "codigo_l (escanear_fila_limpiar (map fillna row) sin_hallazgo_limpiar) =
            segundo (filter solo_digitos_6_12 (valores row))"
    by (simp add: escanear_fila_limpiar_codigo sin_hallazgo_limpiar_def filtrar_candidatos_fillna)
  have p: "(resultados st' = resultados st \<or>
       (\<exists>r. resultados st' = resultados st @ [r] \<and>
            primero (filter ?cand (valores row)) = Some (Identificacion r))) \<and>
      (filter ?cand (valores row) = [] \<longrightarrow> resultados st' = resultados st)"
    if s: "procesar_fila ced a st row = Inr st'"
  proof -
    from procesar_fila_pasos[OF s]
    have d: "resultados st' = resultados st \<or>
       (\<exists>r. resultados st' = resultados st @ [r] \<and>
            primero (filter ?cand (valores row)) = Some (Identificacion r))"
      unfolding parece_cedula_fun
      by (elim disjE exE conjE) (simp_all add: nuevo_estudiante_campos)
    then show ?thesis by (auto simp: primero_def)
  qed
  have q: "(registros stl' = registros stl \<or>
       (\<exists>r. registros stl' = registros stl @ [r] \<and>
            primero (filter solo_digitos_6_12 (valores row)) = Some (Cedula r) \<and>
            Codigo_Estudiante r = o_vacio (segundo (filter solo_digitos_6_12 (valores row))))) \<and>
      (filter solo_digitos_6_12 (valores row) = [] \<longrightarrow> registros stl' = registros stl)"
    if s: "procesar_fila_limpiar a stl row = Inr stl'"
    using procesar_fila_limpiar_pasos[OF s] by (auto simp: primero_def)
  from e1 e2 l1 l2 p q show ?thesis by blast
qed

theorem cedula_es_primer_candidato_witness:
  "filter (\<lambda>v. solo_digitos_6_12 v \<and> v \<notin> set periodos)
     (valores [None, Some ''PEREZ GOMEZ JUAN'', Some '' 10012345 '', Some ''202110001'',
               Some ''20211'', Some ''12'']) = [''10012345'', ''202110001''] \<and>
   cedula_encontrada (escanear_fila [None, Some ''PEREZ GOMEZ JUAN'', Some '' 10012345 '',
       Some ''202110001'', Some ''20211'', Some ''12''] sin_hallazgo) = Some ''10012345'' \<and>
   codigo_encontrado (escanear_fila [None, Some ''PEREZ GOMEZ JUAN'', Some '' 10012345 '',
       Some ''202110001'', Some ''20211'', Some ''12''] sin_hallazgo) = Some ''202110001'' \<and>
   map_sum id (\<lambda>s. map Identificacion (resultados s))
     (procesar_fila {} 2021 estado_inicial [None, Some ''PEREZ GOMEZ JUAN'', Some '' 10012345 '',
        Some ''202110001'', Some ''20211'', Some ''12'']) = Inr [''10012345''] \<and>
   map_sum id (\<lambda>s. map (\<lambda>r. (Cedula r, Codigo_Estudiante r)) (registros s))
     (procesar_fila_limpiar 2021 estado_inicial_limpiar [Some ''PEREZ GOMEZ JUAN'', None,
        Some '' 10012345 '', Some ''202110001'', Some ''20211'', Some ''12'']) =
     Inr [(''10012345'', ''202110001'')] \<and>
   filter solo_digitos_6_12 (valores [Some ''GARCIA LOPEZ ANA'', Some ''12345'']) = [] \<and>
   map_sum id resultados
     (procesar_fila {} 2021 estado_inicial [Some ''GARCIA LOPEZ ANA'', Some ''12345'']) = Inr [] \<and>
   map_sum id registros
     (procesar_fila_limpiar 2021 estado_inicial_limpiar [Some ''GARCIA LOPEZ ANA'', Some ''12345'']) =
     Inr []"
proof -
  let ?rowE = "[None, Some ''PEREZ GOMEZ JUAN'', Some '' 10012345 '', Some ''202110001'',
                Some ''20211'', Some ''12'']"
  let ?rowL = "[Some ''PEREZ GOMEZ JUAN'', None, Some '' 10012345 '', Some ''202110001'',
                Some ''20211'', Some ''12'']"
  let ?rowN = "[Some ''GARCIA LOPEZ ANA'', Some ''12345'']"
  let ?cand = "\<lambda>v. solo_digitos_6_12 v \<and> v \<notin> set periodos"
  let ?sE = "\<lparr>programa_actual = None,
              resultados = [\<lparr>Anio = 2021, Programa_Codigo = Some ''Sin_Codigo'',
                 Programa_Nombre = Some ''Sin_Programa'', Nombre = ''PEREZ GOMEZ JUAN'',
                 Identificacion = ''10012345'', Es_Egresado_ULibre = ''No''\<rparr>],
              estudiantes_vistos = {''10012345_None''}\<rparr>"
  let ?sL = "\<lparr>registros = [\<lparr>Anio_l = 2021, Facultad = [], Codigo_Programa = [],
                 Nombre_Programa = [], Nombre_Estudiante = ''PEREZ GOMEZ JUAN'',
                 Cedula = ''10012345'', Codigo_Estudiante = ''202110001'', Grupo = ''12''\<rparr>],
              facultad_actual = [], programa_codigo = Some [], programa_nombre = []\<rparr>"
  have fE: "filter ?cand (valores ?rowE) = [''10012345'', ''202110001'']" by code_simp
  have fN: "filter ?cand (valores ?rowN) = []" by code_simp
  have gN: "filter solo_digitos_6_12 (valores ?rowN) = []" by code_simp
  have pE: "procesar_fila {} 2021 estado_inicial ?rowE = Inr ?sE" by code_simp
  have pL: "procesar_fila_limpiar 2021 estado_inicial_limpiar ?rowL = Inr ?sL" by code_simp
  obtain sN where pN: "procesar_fila {} 2021 estado_inicial ?rowN = Inr sN"
    using procesar_fila_no_vacia[of ?rowN "{}" 2021 estado_inicial] by blast
  obtain tN where qN: "procesar_fila_limpiar 2021 estado_inicial_limpiar ?rowN = Inr tN"
    using procesar_fila_limpiar_no_vacia[of ?rowN 2021 estado_inicial_limpiar] by blast
  note tE = cedula_es_primer_candidato[where row = ?rowE and ced = "{}" and a = 2021
      and st = estado_inicial and st' = ?sE and stl = estado_inicial_limpiar and stl' = ?sL]
  note tN = cedula_es_primer_candidato[where row = ?rowN and ced = "{}" and a = 2021
      and st = estado_inicial and st' = sN and stl = estado_inicial_limpiar and stl' = tN]
  note e1 = tE[THEN conjunct1]
  note e2 = tE[THEN conjunct2, THEN conjunct1]
  note n5 = tN[THEN conjunct2, THEN conjunct2, THEN conjunct2, THEN conjunct2, THEN conjunct1,
               THEN mp, OF pN, THEN conjunct2, THEN mp, OF fN]
  note n6 = tN[THEN conjunct2, THEN conjunct2, THEN conjunct2, THEN conjunct2, THEN conjunct2,
               THEN mp, OF qN, THEN conjunct2, THEN mp, OF gN]
  have c1: "cedula_encontrada (escanear_fila ?rowE sin_hallazgo) = Some ''10012345''"
    unfolding e1 fE by (simp add: primero_def)
  have c2: "codigo_encontrado (escanear_fila ?rowE sin_hallazgo) = Some ''202110001''"
    unfolding e2 fE by (simp add: segundo_def)
  have c3: "map_sum id (\<lambda>s. map Identificacion (resultados s))
              (procesar_fila {} 2021 estado_inicial ?rowE) = Inr [''10012345'']"
    unfolding pE by simp
  have c4: "map_sum id (\<lambda>s. map (\<lambda>r. (Cedula r, Codigo_Estudiante r)) (registros s))
              (procesar_fila_limpiar 2021 estado_inicial_limpiar ?rowL) =
            Inr [(''10012345'', ''202110001'')]"
    unfolding pL by simp
  have c5: "map_sum id resultados (procesar_fila {} 2021 estado_inicial ?rowN) = Inr []"
    unfolding pN using n5 by (simp add: estado_inicial_def)
  have c6: "map_sum id registros (procesar_fila_limpiar 2021 estado_inicial_limpiar ?rowN) = Inr []"
    unfolding qN using n6 by (simp add: estado_inicial_limpiar_def)
  from fE c1 c2 c3 c4 gN c5 c6 show ?thesis by blast
qed

section \<open>Deduplication in totalxano.py\<close>

lemma guardar_Inr:
  assumes "guardar regs kr = Inr regs'"
  shows "regs' = AList.update (fst kr) (snd kr) regs \<and>
           (map_of regs (fst kr) = None \<or>
            (\<exists>ex. map_of regs (fst kr) = Some ex \<and> reemplaza (snd (snd kr)) (snd ex) = Inr True)) \<or>
         regs' = regs \<and>
           (\<exists>ex. map_of regs (fst kr) = Some ex \<and> reemplaza (snd (snd kr)) (snd ex) = Inr False)"
  using assms by (auto simp: guardar_def split: option.splits sum.splits if_splits)

lemma guardar_distinct:
  "guardar regs kr = Inr regs' \<Longrightarrow> distinct (map fst regs) \<Longrightarrow> distinct (map fst regs')"
  using guardar_Inr[of regs kr regs'] by (auto simp: AList.distinct_update)

lemma set_update_sub: "set (AList.update k v al) \<subseteq> insert (k, v) (set al)"
  by (induction al) auto

lemma set_guardar_sub: "guardar regs kr = Inr regs' \<Longrightarrow> set regs' \<subseteq> insert kr (set regs)"
  using guardar_Inr[of regs kr regs'] set_update_sub[of "fst kr" "snd kr" regs] by auto

lemma claves_guardar:
  assumes "guardar regs kr = Inr regs'"
  shows "fst ` set regs \<subseteq> fst ` set regs'"
proof -
  have "fst ` set regs \<subseteq> fst ` set (AList.update (fst kr) (snd kr) regs)"
    unfolding AList.dom_update by blast
  with guardar_Inr[OF assms] show ?thesis by (elim disjE conjE) simp_all
qed

lemma guardar_programas_distinct:
  "distinct (map fst regs) \<Longrightarrow> distinct (map fst (fst (guardar_programas regs krs)))"
proof (induction krs arbitrary: regs)
  case Nil
  then show ?case by simp
next
  case (Cons kr krs)
  then show ?case by (cases "guardar regs kr") (auto dest: guardar_distinct)
qed

lemma set_guardar_programas_sub:
  "set (fst (guardar_programas regs krs)) \<subseteq> set regs \<union> set (completados regs krs)"
proof (induction krs arbitrary: regs)
  case Nil
  then show ?case by simp
next
  case (Cons kr krs)
  show ?case
  proof (cases "guardar regs kr")
    case (Inl e)
    then show ?thesis by simp
  next
    case (Inr regs')
    from Cons.IH[of regs'] set_guardar_sub[OF Inr] show ?thesis using Inr by auto
  qed
qed

lemma claves_guardar_programas: "fst ` set regs \<subseteq> fst ` set (fst (guardar_programas regs krs))"
proof (induction krs arbitrary: regs)
  case Nil
  then show ?case by simp
next
  case (Cons kr krs)
  show ?case
  proof (cases "guardar regs kr")
    case (Inl e)
    then show ?thesis by simp
  next
    case (Inr regs')
    from Cons.IH[of regs'] claves_guardar[OF Inr] show ?thesis using Inr by auto
  qed
qed

lemma set_completados_sub: "set (completados regs krs) \<subseteq> set krs"
proof (induction krs arbitrary: regs)
  case Nil
  then show ?case by simp
next
  case (Cons kr krs)
  then show ?case by (cases "guardar regs kr") auto
qed

lemma fecha_le_refl: "f \<noteq> Some NaT \<Longrightarrow> fecha_le f f"
  by (cases f; simp add: fecha_le_def split: fecha.splits)

lemma fecha_le_trans: "fecha_le a b \<Longrightarrow> fecha_le b c \<Longrightarrow> fecha_le a c"
  by (auto simp: fecha_le_def split: option.splits fecha.splits)

lemma reemplaza_le:
  "reemplaza n e = Inr True \<Longrightarrow> n \<noteq> Some NaT \<Longrightarrow> e \<noteq> Some NaT \<Longrightarrow> fecha_le e n"
  by (auto simp: reemplaza_def fecha_le_def fecha_mayor_def split: option.splits fecha.splits if_splits)

lemma no_reemplaza_le:
  "reemplaza n e = Inr False \<Longrightarrow> n \<noteq> Some NaT \<Longrightarrow> e \<noteq> Some NaT \<Longrightarrow> fecha_le n e"
  by (auto simp: reemplaza_def fecha_le_def fecha_mayor_def split: option.splits fecha.splits if_splits)

text \<open>One stored record keeps the invariant: the record kept for a key is the most recent.\<close>

lemma mas_reciente_paso:
  assumes inv: "mas_reciente krs (map_of regs)" and g: "guardar regs kr = Inr regs'"
  shows "mas_reciente (krs @ [kr]) (map_of regs')"
proof -
  obtain k0 v0 where kr: "kr = (k0, v0)" by (cases kr)
  from inv have
    i1: "\<And>k v. map_of regs k = Some v \<Longrightarrow> (k, v) \<in> set krs" and
    i2: "\<And>k v kr'. map_of regs k = Some v \<Longrightarrow> sin_NaT krs k \<Longrightarrow> kr' \<in> set krs \<Longrightarrow> fst kr' = k
           \<Longrightarrow> fecha_le (snd (snd kr')) (snd v)" and
    i3: "\<And>kr'. kr' \<in> set krs \<Longrightarrow> map_of regs (fst kr') \<noteq> None"
    unfolding mas_reciente_def by blast+
  have mono: "sin_NaT (krs @ [kr]) k \<Longrightarrow> sin_NaT krs k" for k
    by (simp add: sin_NaT_def)
  have last_ok: "sin_NaT (krs @ [kr]) k0 \<Longrightarrow> snd v0 \<noteq> Some NaT"
    by (simp add: sin_NaT_def kr)
  from guardar_Inr[OF g] consider
      (nuevo) "map_of regs k0 = None" "map_of regs' = (map_of regs)(k0 \<mapsto> v0)"
    | (cambia) ve where "map_of regs k0 = Some ve" "reemplaza (snd v0) (snd ve) = Inr True"
        "map_of regs' = (map_of regs)(k0 \<mapsto> v0)"
    | (queda) ve where "map_of regs k0 = Some ve" "reemplaza (snd v0) (snd ve) = Inr False"
        "map_of regs' = map_of regs"
    by (auto simp: kr AList.update_conv')
  then show ?thesis
  proof cases
    case nuevo
    have nok: "kr' \<in> set krs \<Longrightarrow> fst kr' \<noteq> k0" for kr'
      using i3[of kr'] nuevo(1) by auto
    show ?thesis
      unfolding mas_reciente_def nuevo(2)
      using i1 i2 i3 mono last_ok nok
      by (auto simp: kr fecha_le_refl)
  next
    case cambia
    have ve_in: "(k0, ve) \<in> set krs" using i1[OF cambia(1)] .
    have key: "fecha_le (snd (snd kr')) (snd v0)"
      if s: "sin_NaT (krs @ [kr]) k0" and mem: "kr' \<in> set krs" and f: "fst kr' = k0" for kr'
    proof -
      from s ve_in have "snd ve \<noteq> Some NaT" by (force simp: sin_NaT_def)
      with cambia(2) last_ok[OF s] have "fecha_le (snd ve) (snd v0)" by (simp add: reemplaza_le)
      moreover have "fecha_le (snd (snd kr')) (snd ve)" using i2[OF cambia(1) mono[OF s] mem f] .
      ultimately show ?thesis using fecha_le_trans by blast
    qed
    show ?thesis
      unfolding mas_reciente_def cambia(3)
      using i1 i2 i3 mono last_ok key
      by (auto simp: kr fecha_le_refl)
  next
    case queda
    have ve_in: "(k0, ve) \<in> set krs" using i1[OF queda(1)] .
    have key: "fecha_le (snd v0) (snd ve)" if s: "sin_NaT (krs @ [kr]) k0"
    proof -
      from s ve_in have "snd ve \<noteq> Some NaT" by (force simp: sin_NaT_def)
      with queda(2) last_ok[OF s] show ?thesis by (simp add: no_reemplaza_le)
    qed
    show ?thesis
      unfolding mas_reciente_def queda(3)
      using i1 i2 i3 mono key queda(1)
      by (auto simp: kr)
  qed
qed

lemma mas_reciente_programas:
  "mas_reciente krs0 (map_of regs) \<Longrightarrow>
     mas_reciente (krs0 @ completados regs krs) (map_of (fst (guardar_programas regs krs)))"
proof (induction krs arbitrary: krs0 regs)
  case Nil
  then show ?case by simp
next
  case (Cons kr krs)
  show ?case
  proof (cases "guardar regs kr")
    case (Inl e)
    with Cons.prems show ?thesis by simp
  next
    case (Inr regs')
    from Cons.IH[OF mas_reciente_paso[OF Cons.prems Inr]] Inr show ?thesis by simp
  qed
qed

lemma guardar_programas_append:
  "guardar_programas regs (xs @ ys) =
     (case guardar_programas regs xs of
        (regs', Some e) \<Rightarrow> (regs', Some e)
      | (regs', None) \<Rightarrow> guardar_programas regs' ys)"
proof (induction xs arbitrary: regs)
  case Nil
  then show ?case by simp
next
  case (Cons x xs)
  then show ?case by (cases "guardar regs x") simp_all
qed

lemma procesar_encuestas_programas:
  "procesar_encuestas td n cs rows regs =
     guardar_programas regs (concat (map (nuevos_de_fila td n cs) rows))"
proof (induction rows arbitrary: regs)
  case Nil
  then show ?case by simp
next
  case (Cons row rows)
  obtain r e where g: "guardar_programas regs (nuevos_de_fila td n cs row) = (r, e)"
    by (cases "guardar_programas regs (nuevos_de_fila td n cs row)")
  show ?case
    by (cases e) (simp_all add: guardar_programas_append g Cons.IH)
qed

lemma nuevos_de_fila_clave:
  "kr \<in> set (nuevos_de_fila td n cs row) \<Longrightarrow> fst kr = clave_de (fst (snd kr))"
  by (auto simp: nuevos_de_fila_def clave_de_def Let_def)

lemma nuevos_de_archivo_clave:
  "kr \<in> set (nuevos_de_archivo td a) \<Longrightarrow> fst kr = clave_de (fst (snd kr))"
  by (auto simp: nuevos_de_archivo_def Let_def nuevos_de_fila_clave split: if_splits sum.splits)

text \<open>
  The dictionary after a file is the dictionary before it with the file's new records
  stored, up to an exception.
\<close>

lemma fst_paso_archivo_t:
  "fst (paso_archivo_t td s a) = fst (guardar_programas (fst s) (nuevos_de_archivo td a))"
proof (cases "existe a")
  case False
  then show ?thesis by (simp add: paso_archivo_t_def nuevos_de_archivo_def)
next
  case True
  show ?thesis
  proof (cases "leer_tabla a")
    case (Inl e)
    with True show ?thesis
      by (simp add: paso_archivo_t_def procesar_archivo_t_def nuevos_de_archivo_def)
  next
    case (Inr df)
    show ?thesis
    proof (cases "columna_programa (buscar_columnas (columnas df) 0 sin_columnas) = None")
      case sin: True
      with True Inr show ?thesis
        by (simp add: paso_archivo_t_def procesar_archivo_t_def nuevos_de_archivo_def Let_def)
    next
      case False
      then obtain i where con: "columna_programa (buscar_columnas (columnas df) 0 sin_columnas) = Some i"
        by auto
      let ?krs = "concat (map (nuevos_de_fila td (nombre_archivo a)
                     (buscar_columnas (columnas df) 0 sin_columnas)) (filas df))"
      obtain r e where g: "guardar_programas (fst s) ?krs = (r, e)"
        by (cases "guardar_programas (fst s) ?krs")
      have n: "nuevos_de_archivo td a = ?krs"
        using True Inr con by (simp add: nuevos_de_archivo_def Let_def)
      have p: "procesar_archivo_t td a (fst s) = (r, e, [])"
        using Inr con g by (simp add: procesar_archivo_t_def procesar_encuestas_programas Let_def)
      show ?thesis
        unfolding n g using True p by (cases e) (simp_all add: paso_archivo_t_def)
    qed
  qed
qed

lemma foldl_paso_archivo_t_distinct:
  "distinct (map fst (fst s)) \<Longrightarrow> distinct (map fst (fst (foldl (paso_archivo_t td) s archivos)))"
proof (induction archivos arbitrary: s)
  case Nil
  then show ?case by simp
next
  case (Cons a archivos)
  show ?case
    using Cons.IH[of "paso_archivo_t td s a"] Cons.prems
    by (simp add: fst_paso_archivo_t guardar_programas_distinct)
qed

lemma foldl_paso_archivo_t_mas_reciente:
  "mas_reciente krs0 (map_of (fst s)) \<Longrightarrow>
     mas_reciente (krs0 @ vistos td (fst s) archivos)
       (map_of (fst (foldl (paso_archivo_t td) s archivos)))"
proof (induction archivos arbitrary: krs0 s)
  case Nil
  then show ?case by simp
next
  case (Cons a archivos)
  from mas_reciente_programas[OF Cons.prems, of "nuevos_de_archivo td a"]
  have "mas_reciente (krs0 @ completados (fst s) (nuevos_de_archivo td a))
          (map_of (fst (paso_archivo_t td s a)))"
    by (simp add: fst_paso_archivo_t)
  from Cons.IH[OF this] show ?case by (simp add: fst_paso_archivo_t)
qed

lemma set_vistos_sub: "set (vistos td regs archivos) \<subseteq> set (concat (map (nuevos_de_archivo td) archivos))"
proof (induction archivos arbitrary: regs)
  case Nil
  then show ?case by simp
next
  case (Cons a archivos)
  from Cons.IH[of "fst (guardar_programas regs (nuevos_de_archivo td a))"]
    set_completados_sub[of regs "nuevos_de_archivo td a"]
  show ?case by auto
qed

lemma claves_foldl_paso_archivo_t:
  "fst ` set (fst s) \<subseteq> fst ` set (fst (foldl (paso_archivo_t td) s archivos))"
proof (induction archivos arbitrary: s)
  case Nil
  then show ?case by simp
next
  case (Cons a archivos)
  from Cons.IH[of "paso_archivo_t td s a"] claves_guardar_programas[of "fst s" "nuevos_de_archivo td a"]
  show ?case by (auto simp: fst_paso_archivo_t)
qed

lemma registros_unicos_clave:
  assumes "kr \<in> set (fst (foldl (paso_archivo_t td) ([], []) archivos))"
  shows "kr \<in> set (vistos td [] archivos) \<and> fst kr = clave_de (fst (snd kr))"
proof -
  let ?regs = "fst (foldl (paso_archivo_t td) ([], []) archivos)"
  have "mas_reciente [] (map_of (fst ([] :: registros_unicos, [] :: mensaje list)))"
    by (simp add: mas_reciente_def)
  from foldl_paso_archivo_t_mas_reciente[OF this, of td archivos]
  have mr: "mas_reciente (vistos td [] archivos) (map_of ?regs)" by simp
  have d: "distinct (map fst ?regs)" by (simp add: foldl_paso_archivo_t_distinct)
  from assms d have "map_of ?regs (fst kr) = Some (snd kr)"
    using map_of_is_SomeI[of ?regs "fst kr" "snd kr"] by simp
  moreover from mr have "\<And>k v. map_of ?regs k = Some v \<Longrightarrow> (k, v) \<in> set (vistos td [] archivos)"
    unfolding mas_reciente_def by blast
  ultimately have "(fst kr, snd kr) \<in> set (vistos td [] archivos)" by blast
  then have m: "kr \<in> set (vistos td [] archivos)" by simp
  with set_vistos_sub[of td "[]" archivos] obtain x where "kr \<in> set (nuevos_de_archivo td x)" by auto
  then have "fst kr = clave_de (fst (snd kr))" by (rule nuevos_de_archivo_clave)
  with m show ?thesis by blast
qed

lemma registros_unicos_distintos:
  "distinct (map fst (fst (foldl (paso_archivo_t td) ([], []) archivos)))"
  by (simp add: foldl_paso_archivo_t_distinct)

lemma fst_analizar_todos_egresados:
  "fst (analizar_todos_egresados td archivos) =
     map (\<lambda>kr. fst (snd kr)) (fst (foldl (paso_archivo_t td) ([], []) archivos))"
  by (simp add: analizar_todos_egresados_def case_prod_beta)

lemma snd_analizar_todos_egresados:
  "snd (analizar_todos_egresados td archivos) = snd (foldl (paso_archivo_t td) ([], []) archivos)"
  by (simp add: analizar_todos_egresados_def case_prod_beta)

lemma resultados_detallados_distintos:
  "distinct (map clave_de (fst (analizar_todos_egresados td archivos)))"
proof -
  let ?regs = "fst (foldl (paso_archivo_t td) ([], []) archivos)"
  have "\<forall>kr \<in> set ?regs. clave_de (fst (snd kr)) = fst kr"
    using registros_unicos_clave[of _ td archivos] by simp
  then have "map (\<lambda>kr. clave_de (fst (snd kr))) ?regs = map fst ?regs"
    by (simp add: map_eq_conv)
  then have e: "map clave_de (map (\<lambda>kr. fst (snd kr)) ?regs) = map fst ?regs"
    by (simp add: comp_def)
  show ?thesis
    unfolding fst_analizar_todos_egresados e by (rule registros_unicos_distintos)
qed

lemma registros_unicos_mas_reciente:
  assumes "kr \<in> set (fst (foldl (paso_archivo_t td) ([], []) archivos))"
    and "sin_NaT (vistos td [] archivos) (fst kr)"
    and "kr' \<in> set (vistos td [] archivos)" and "fst kr' = fst kr"
  shows "fecha_le (snd (snd kr')) (snd (snd kr))"
proof -
  let ?regs = "fst (foldl (paso_archivo_t td) ([], []) archivos)"
  have "mas_reciente [] (map_of (fst ([] :: registros_unicos, [] :: mensaje list)))"
    by (simp add: mas_reciente_def)
  from foldl_paso_archivo_t_mas_reciente[OF this, of td archivos]
  have mr: "mas_reciente (vistos td [] archivos) (map_of ?regs)" by simp
  have d: "distinct (map fst ?regs)" by (simp add: foldl_paso_archivo_t_distinct)
  from assms(1) d have "map_of ?regs (fst kr) = Some (snd kr)"
    using map_of_is_SomeI[of ?regs "fst kr" "snd kr"] by simp
  with mr assms(2,3,4) show ?thesis unfolding mas_reciente_def by blast
qed

section \<open>The fallback between encodings\<close>

lemma intentar_encodings_fst:
  "fst (intentar_encodings leer encs) =
     takeWhile (\<lambda>enc. isl (leer enc)) encs @ take 1 (dropWhile (\<lambda>enc. isl (leer enc)) encs)"
  by (induction encs) (auto split: sum.splits prod.splits)

lemma intentar_encodings_snd:
  "snd (intentar_encodings leer encs) =
     (case dropWhile (\<lambda>enc. isl (leer enc)) encs of
        [] \<Rightarrow> None
      | enc # _ \<Rightarrow> Some (projr (leer enc)))"
  by (induction encs) (auto split: sum.splits prod.splits)

lemma sin_lectura:
  "\<forall>enc \<in> set cadena_encodings. isl (leer enc) \<Longrightarrow> snd (intentar_encodings leer cadena_encodings) = None"
proof -
  assume "\<forall>enc \<in> set cadena_encodings. isl (leer enc)"
  then have d: "dropWhile (\<lambda>enc. isl (leer enc)) cadena_encodings = []" by simp
  show ?thesis unfolding intentar_encodings_snd d by simp
qed

text \<open>
  limpiar\_csv\_posgrados.py and the loaders catch every exception of a read. When the
  read as UTF-8 raises \<open>EmptyDataError\<close>, which is no decoding failure, they read the file
  again with the next encodings all the same.
\<close>

theorem respaldo_sin_error_de_decodificacion:
  "(\<lambda>enc. Inl EmptyDataError :: py_error + fila list) Utf8 \<noteq> Inl UnicodeDecodeError \<and>
   fst (leer_utf8_o_latin1 (\<lambda>enc. Inl EmptyDataError :: py_error + fila list)) = [Utf8, Latin1] \<and>
   fst (intentar_encodings (\<lambda>enc. Inl EmptyDataError :: py_error + fila list) cadena_encodings) =
     [Utf8, Latin1, Iso8859_1, Cp1252]"
  by (simp add: leer_utf8_o_latin1_def cadena_encodings_def)

text \<open>
  Claim C5, amended. Every reader with a fallback tries UTF-8 first, and when that read
  succeeds its result is the UTF-8 parse and no other encoding is tried. In app.py and
  totalxano.py Latin-1 is tried exactly when the UTF-8 read raised \<open>UnicodeDecodeError\<close>.
  In limpiar\_csv\_posgrados.py Latin-1 is tried exactly when the UTF-8 read raised any
  exception. In the loaders an encoding of the chain UTF-8, Latin-1, ISO-8859-1, cp1252 is
  tried exactly when every earlier one raised, and the data frame is that of the first
  read that succeeds. When every read of the chain raised, \<open>procesar_archivo_posgrados\<close>
  returns the empty list and \<open>cargar_base_datos_egresados\<close> fails on its unassigned
  variable; nothing else is done to recover.
\<close>

theorem respaldo_de_encodings:
  "(leer Utf8 = Inr df \<longrightarrow>
      leer_con_respaldo leer = ([Utf8], Inr df) \<and>
      leer_utf8_o_latin1 leer = ([Utf8], Inr df) \<and>
      intentar_encodings leer cadena_encodings = ([Utf8], Some df)) \<and>
   (Latin1 \<in> set (fst (leer_con_respaldo leer)) \<longleftrightarrow> leer Utf8 = Inl UnicodeDecodeError) \<and>
   (leer Utf8 = Inl UnicodeDecodeError \<longrightarrow> leer_con_respaldo leer = ([Utf8, Latin1], leer Latin1)) \<and>
   (leer Utf8 = Inl e \<and> e \<noteq> UnicodeDecodeError \<longrightarrow> leer_con_respaldo leer = ([Utf8], Inl e)) \<and>
   (Latin1 \<in> set (fst (leer_utf8_o_latin1 leer)) \<longleftrightarrow> isl (leer Utf8)) \<and>
   (isl (leer Utf8) \<longrightarrow> leer_utf8_o_latin1 leer = ([Utf8, Latin1], leer Latin1)) \<and>
   (Latin1 \<in> set (fst (intentar_encodings leer cadena_encodings)) \<longleftrightarrow> isl (leer Utf8)) \<and>
   (Iso8859_1 \<in> set (fst (intentar_encodings leer cadena_encodings)) \<longleftrightarrow>
      isl (leer Utf8) \<and> isl (leer Latin1)) \<and>
   (Cp1252 \<in> set (fst (intentar_encodings leer cadena_encodings)) \<longleftrightarrow>
      isl (leer Utf8) \<and> isl (leer Latin1) \<and> isl (leer Iso8859_1)) \<and>
   snd (intentar_encodings leer cadena_encodings) =
     (case dropWhile (\<lambda>enc. isl (leer enc)) cadena_encodings of
        [] \<Rightarrow> None
      | enc # _ \<Rightarrow> Some (projr (leer enc))) \<and>
   ((\<forall>enc \<in> set cadena_encodings. isl (leer enc)) \<longrightarrow>
      snd (intentar_encodings leer cadena_encodings) = None)"
proof -
  have c1: "leer Utf8 = Inr df \<Longrightarrow> leer_con_respaldo leer = ([Utf8], Inr df)"
    by (simp add: leer_con_respaldo_def)
  have c2: "leer Utf8 = Inr df \<Longrightarrow> leer_utf8_o_latin1 leer = ([Utf8], Inr df)"
    by (simp add: leer_utf8_o_latin1_def)
  have c3: "leer Utf8 = Inr df \<Longrightarrow> intentar_encodings leer cadena_encodings = ([Utf8], Some df)"
    by (simp add: cadena_encodings_def)
  have c4: "Latin1 \<in> set (fst (leer_con_respaldo leer)) \<longleftrightarrow> leer Utf8 = Inl UnicodeDecodeError"
    by (cases "leer Utf8") (simp_all add: leer_con_respaldo_def)
  have c5: "leer Utf8 = Inl UnicodeDecodeError \<Longrightarrow> leer_con_respaldo leer = ([Utf8, Latin1], leer Latin1)"
    by (simp add: leer_con_respaldo_def)
  have c6: "leer Utf8 = Inl e \<Longrightarrow> e \<noteq> UnicodeDecodeError \<Longrightarrow> leer_con_respaldo leer = ([Utf8], Inl e)"
    by (simp add: leer_con_respaldo_def)
  have c7: "Latin1 \<in> set (fst (leer_utf8_o_latin1 leer)) \<longleftrightarrow> isl (leer Utf8)"
    by (cases "leer Utf8") (simp_all add: leer_utf8_o_latin1_def)
  have c8: "isl (leer Utf8) \<Longrightarrow> leer_utf8_o_latin1 leer = ([Utf8, Latin1], leer Latin1)"
    by (cases "leer Utf8") (simp_all add: leer_utf8_o_latin1_def)
  have c9: "Latin1 \<in> set (fst (intentar_encodings leer cadena_encodings)) \<longleftrightarrow> isl (leer Utf8)"
    unfolding intentar_encodings_fst cadena_encodings_def
    by (cases "leer Utf8"; cases "leer Latin1"; cases "leer Iso8859_1") simp_all
  have c10: "Iso8859_1 \<in> set (fst (intentar_encodings leer cadena_encodings)) \<longleftrightarrow>
      isl (leer Utf8) \<and> isl (leer Latin1)"
    unfolding intentar_encodings_fst cadena_encodings_def
    by (cases "leer Utf8"; cases "leer Latin1"; cases "leer Iso8859_1") simp_all
  have c11: "Cp1252 \<in> set (fst (intentar_encodings leer cadena_encodings)) \<longleftrightarrow>
      isl (leer Utf8) \<and> isl (leer Latin1) \<and> isl (leer Iso8859_1)"
    unfolding intentar_encodings_fst cadena_encodings_def
    by (cases "leer Utf8"; cases "leer Latin1"; cases "leer Iso8859_1") simp_all
  have c12: "snd (intentar_encodings leer cadena_encodings) =
     (case dropWhile (\<lambda>enc. isl (leer enc)) cadena_encodings of
        [] \<Rightarrow> None
      | enc # _ \<Rightarrow> Some (projr (leer enc)))"
    by (rule intentar_encodings_snd)
  have c13: "(\<forall>enc \<in> set cadena_encodings. isl (leer enc)) \<Longrightarrow>
      snd (intentar_encodings leer cadena_encodings) = None"
    using sin_lectura [of leer] by simp
  from c1 c2 c3 c4 c5 c6 c7 c8 c9 c10 c11 c12 c13 show ?thesis by blast
qed

lemma sin_lectura_posible:
  assumes "\<forall>enc \<in> set cadena_encodings. isl (leer enc)"
  shows "procesar_archivo_posgrados leer ced a = Inr []"
proof -
  from assms have d: "dropWhile (\<lambda>enc. isl (leer enc)) cadena_encodings = []"
    by simp
  show ?thesis unfolding procesar_archivo_posgrados_def intentar_encodings_snd d by simp
qed

lemma sin_lectura_posible_bdd:
  assumes "\<forall>enc \<in> set cadena_encodings. isl (leer enc)"
  shows "cargar_base_datos_egresados leer = Inl UnboundLocalError"
proof -
  from assms have d: "dropWhile (\<lambda>enc. isl (leer enc)) cadena_encodings = []"
    by simp
  show ?thesis unfolding cargar_base_datos_egresados_def intentar_encodings_snd d by simp
qed

theorem respaldo_de_encodings_witness:
  "leer_con_respaldo (\<lambda>enc. if enc = Utf8 then Inl UnicodeDecodeError else Inr [''a;b'']) =
     ([Utf8, Latin1], Inr [''a;b'']) \<and>
   leer_con_respaldo (\<lambda>enc. if enc = Utf8 then Inl EmptyDataError else Inr [''a;b'']) =
     ([Utf8], Inl EmptyDataError) \<and>
   leer_utf8_o_latin1 (\<lambda>enc. if enc = Utf8 then Inl EmptyDataError else Inr [''a;b'']) =
     ([Utf8, Latin1], Inr [''a;b'']) \<and>
   leer_con_respaldo (\<lambda>enc. Inr [''a;b''] :: py_error + string list) = ([Utf8], Inr [''a;b'']) \<and>
   intentar_encodings (\<lambda>enc. if enc = Utf8 \<or> enc = Latin1 then Inl ParserError else Inr [''a;b''])
     cadena_encodings = ([Utf8, Latin1, Iso8859_1], Some [''a;b'']) \<and>
   snd (intentar_encodings (\<lambda>enc. Inl FileNotFoundError :: py_error + string list) cadena_encodings) = None"
proof -
  let ?a = "\<lambda>enc. if enc = Utf8 then Inl UnicodeDecodeError else Inr [''a;b''] :: py_error + string list"
  let ?b = "\<lambda>enc. if enc = Utf8 then Inl EmptyDataError else Inr [''a;b''] :: py_error + string list"
  let ?c = "\<lambda>enc. Inr [''a;b''] :: py_error + string list"
  let ?d = "\<lambda>enc. if enc = Utf8 \<or> enc = Latin1 then Inl ParserError else Inr [''a;b''] :: py_error + string list"
  let ?f = "\<lambda>enc. Inl FileNotFoundError :: py_error + string list"
  have a: "?a Utf8 = Inl UnicodeDecodeError" by simp
  have b: "?b Utf8 = Inl EmptyDataError \<and> EmptyDataError \<noteq> UnicodeDecodeError" by simp
  have bl: "isl (?b Utf8)" by simp
  have c: "?c Utf8 = Inr [''a;b'']" by simp
  have f: "\<forall>enc \<in> set cadena_encodings. isl (?f enc)" by simp
  note ta = respaldo_de_encodings[of ?a "[]" EmptyDataError]
  note tb = respaldo_de_encodings[of ?b "[]" EmptyDataError]
  note tc = respaldo_de_encodings[of ?c "[''a;b'']" EmptyDataError]
  note tf = respaldo_de_encodings[of ?f "[]" EmptyDataError]
  from ta a have r1: "leer_con_respaldo ?a = ([Utf8, Latin1], Inr [''a;b''])" by simp
  from tb b have r2: "leer_con_respaldo ?b = ([Utf8], Inl EmptyDataError)" by blast
  from tb bl have r3: "leer_utf8_o_latin1 ?b = ([Utf8, Latin1], Inr [''a;b''])" by simp
  from tc c have r4: "leer_con_respaldo ?c = ([Utf8], Inr [''a;b''])" by blast
  have r5: "intentar_encodings ?d cadena_encodings = ([Utf8, Latin1, Iso8859_1], Some [''a;b''])"
    by (simp add: cadena_encodings_def)
  from tf f have r6: "snd (intentar_encodings ?f cadena_encodings) = None" by blast
  from r1 r2 r3 r4 r5 r6 show ?thesis by blast
qed

end
